theory Spec2Isabelle
  imports Main "HOL-Library.AList"
begin

section \<open>Values of the scenario payload\<close>

text \<open>
  The payload is what \<^verbatim>\<open>json.loads\<close> returns: \<^verbatim>\<open>None\<close>, booleans, integers, floats,
  strings, lists and dictionaries with string keys. A dictionary is an association list in
  insertion order; a lookup reads the first entry of a key.

  A float is kept abstract: the program tests a float for truth and hands it to the
  formatter, so a float is the pair of its truth value and the decimal text that tells
  it from the other floats.
\<close>

datatype pyfloat = PyFloat (float_nonzero: bool) (float_str: string)

datatype json =
    JNull
  | JBool bool
  | JInt int
  | JFloat pyfloat
  | JStr string
  | JList "json list"
  | JObj "(string \<times> json) list"

type_synonym pydict = "(string \<times> json) list"

datatype error =
    ValueError string
  | JSONDecodeError string string
  | TypeError string
  | AttributeError string
  | RecursionError string
  | CollaboratorError string


subsection \<open>Truth value, \<^verbatim>\<open>or\<close>, and dictionary access\<close>

fun truthy :: "json \<Rightarrow> bool" where
  "truthy JNull = False"
| "truthy (JBool b) = b"
| "truthy (JInt i) = (i \<noteq> 0)"
| "truthy (JFloat f) = float_nonzero f"
| "truthy (JStr s) = (s \<noteq> [])"
| "truthy (JList xs) = (xs \<noteq> [])"
| "truthy (JObj d) = (d \<noteq> [])"

definition py_or :: "json \<Rightarrow> json \<Rightarrow> json" where
  "py_or a b = (if truthy a then a else b)"

text \<open>\<^verbatim>\<open>d.get(k)\<close> and \<^verbatim>\<open>d.get(k, default)\<close> on a dictionary.\<close>

definition dict_get_default :: "pydict \<Rightarrow> string \<Rightarrow> json \<Rightarrow> json" where
  "dict_get_default d k dflt = (case map_of d k of None \<Rightarrow> dflt | Some v \<Rightarrow> v)"

definition dict_get :: "pydict \<Rightarrow> string \<Rightarrow> json" where
  "dict_get d k = dict_get_default d k JNull"

text \<open>\<^verbatim>\<open>d[k] = v\<close>: an existing key keeps its position, a new key goes to the end.\<close>

definition dict_set :: "pydict \<Rightarrow> string \<Rightarrow> json \<Rightarrow> pydict" where
  "dict_set d k v = AList.update k v d"

fun type_name :: "json \<Rightarrow> string" where
  "type_name JNull = ''NoneType''"
| "type_name (JBool b) = ''bool''"
| "type_name (JInt i) = ''int''"
| "type_name (JFloat f) = ''float''"
| "type_name (JStr s) = ''str''"
| "type_name (JList xs) = ''list''"
| "type_name (JObj d) = ''dict''"

text \<open>
  The receiver of a \<^verbatim>\<open>.get\<close> call: only a dictionary has the method, every other value
  raises \<^verbatim>\<open>AttributeError\<close>.
\<close>

fun as_dict :: "json \<Rightarrow> error + pydict" where
  "as_dict (JObj d) = Inr d"
| "as_dict v = Inl (AttributeError (type_name v))"

subsection \<open>Sequencing, formatting and \<^verbatim>\<open>join\<close>\<close>

text \<open>
  A statement that can raise returns \<open>Inl\<close> of the exception. \<open>and_then\<close> runs the rest
  of a block on the value of a step that did not raise; \<open>collect\<close> runs the steps of a
  loop in order and gathers what they append, stopping at the first one that raises.
\<close>

fun and_then :: "error + 'a \<Rightarrow> ('a \<Rightarrow> error + 'b) \<Rightarrow> error + 'b" where
  "and_then (Inl e) f = Inl e"
| "and_then (Inr x) f = f x"

fun collect :: "(error + 'a list) list \<Rightarrow> error + 'a list" where
  "collect [] = Inr []"
| "collect (r # rs) = and_then r (\<lambda>xs. and_then (collect rs) (\<lambda>ys. Inr (xs @ ys)))"

text \<open>
  What an f-string writes for \<^verbatim>\<open>{value}\<close> is \<^verbatim>\<open>format(value, "")\<close>: a string as it is, and
  for any other value the text that the interpreter's \<^verbatim>\<open>str\<close> gives. That text is not
  fixed by the program: \<^verbatim>\<open>str\<close> of a list or a dictionary is its \<^verbatim>\<open>repr\<close>, which escapes
  the characters that the interpreter's Unicode tables call non-printable; \<^verbatim>\<open>str\<close> of
  an integer raises \<^verbatim>\<open>ValueError\<close> beyond the interpreter's limit on the number of digits;
  \<^verbatim>\<open>repr\<close> of a deeply nested value raises \<^verbatim>\<open>RecursionError\<close>. The interpreter's \<^verbatim>\<open>str\<close>
  on the values that are not strings is therefore an argument of the model, the
  \<open>formatter\<close>: \<open>fmt v\<close> is \<open>Inr\<close> of the text, or \<open>Inl\<close> of the exception raised.
\<close>

type_synonym formatter = "json \<Rightarrow> error + string"

fun py_str :: "formatter \<Rightarrow> json \<Rightarrow> error + string" where
  "py_str fmt (JStr s) = Inr s"
| "py_str fmt v = fmt v"

text \<open>\<^verbatim>\<open>sep.join(parts)\<close>.\<close>

fun py_join :: "string \<Rightarrow> string list \<Rightarrow> string" where
  "py_join sep [] = []"
| "py_join sep [x] = x"
| "py_join sep (x # y # ys) = x @ sep @ py_join sep (y # ys)"

section \<open>The prompt composer: \<^verbatim>\<open>build_voice_agent_system_prompt\<close>\<close>

text \<open>
  The function appends to \<^verbatim>\<open>parts\<close> one block after the other. Each block of the source
  is one definition here, returning what it appends (nothing or one section) or the
  exception that it raises: a block can raise when it formats a value, and two blocks
  also when they call \<^verbatim>\<open>.get\<close> on a nested value.
\<close>

text \<open>Lines 241-243.\<close>

definition role_part :: "formatter \<Rightarrow> pydict \<Rightarrow> error + string list" where
  \<open>role_part fmt payload =
     (let role = py_or (dict_get payload ''role_instruction'') (JStr '''')
      in if truthy role
         then and_then (py_str fmt role) (\<lambda>text. Inr [''## Role\<newline>'' @ text])
         else Inr [])\<close>

text \<open>Lines 245-253.\<close>

definition profile_keys :: "string list" where
  "profile_keys = [''name'', ''age'', ''emotion'', ''gender'', ''race'', ''other_relevant_details'']"

definition profile_line :: "formatter \<Rightarrow> pydict \<Rightarrow> string \<Rightarrow> error + string list" where
  \<open>profile_line fmt caller_profile key =
     (let val = dict_get caller_profile key
      in if val \<noteq> JNull \<and> val \<noteq> JStr ''''
         then and_then (py_str fmt val) (\<lambda>text. Inr [''- '' @ key @ '': '' @ text])
         else Inr [])\<close>

definition caller_details_part :: "formatter \<Rightarrow> pydict \<Rightarrow> error + string list" where
  \<open>caller_details_part fmt payload =
     and_then (as_dict (py_or (dict_get payload ''scenario'') (JObj []))) (\<lambda>scenario.
     and_then (as_dict (py_or (dict_get scenario ''caller_profile'') (JObj []))) (\<lambda>caller_profile.
     and_then (collect (map (profile_line fmt caller_profile) profile_keys)) (\<lambda>profile_parts.
       Inr (if profile_parts \<noteq> []
            then [''## Caller personal details\<newline>'' @ py_join ''\<newline>'' profile_parts]
            else []))))\<close>

text \<open>Lines 255-257.\<close>

definition summary_part :: "formatter \<Rightarrow> pydict \<Rightarrow> error + string list" where
  \<open>summary_part fmt payload =
     (let summary = py_or (dict_get payload ''scenario_summary_for_agent'') (JStr '''')
      in if truthy summary
         then and_then (py_str fmt summary)
                (\<lambda>text. Inr [''## Scenario summary (ground truth)\<newline>'' @ text])
         else Inr [])\<close>

text \<open>
  The bulleted lines of the four list sections (lines 261, 266, 280, 289): the items are
  formatted in order, then joined.
\<close>

definition bullet_lines :: "formatter \<Rightarrow> json list \<Rightarrow> error + string" where
  \<open>bullet_lines fmt items =
     and_then (collect (map (\<lambda>item. and_then (py_str fmt item) (\<lambda>text. Inr [''- '' @ text])) items))
       (\<lambda>lines. Inr (py_join ''\<newline>'' lines))\<close>

text \<open>Lines 259-262.\<close>

definition critical_part :: "formatter \<Rightarrow> pydict \<Rightarrow> error + string list" where
  \<open>critical_part fmt payload =
     (case dict_get payload ''critical_info'' of
        JList critical \<Rightarrow>
          if critical \<noteq> []
          then and_then (bullet_lines fmt critical) (\<lambda>lines.
                 Inr [''## Critical information to convey (reveal when the operator asks; do not dump all at once)\<newline>''
                      @ lines])
          else Inr []
      | _ \<Rightarrow> Inr [])\<close>

text \<open>Lines 264-267.\<close>

definition withheld_part :: "formatter \<Rightarrow> pydict \<Rightarrow> error + string list" where
  \<open>withheld_part fmt payload =
     (case dict_get payload ''withheld_information'' of
        JList withheld \<Rightarrow>
          if withheld \<noteq> []
          then and_then (bullet_lines fmt withheld) (\<lambda>lines.
                 Inr [''## Details that emerge with operator probing\<newline>'' @ lines
                      @ ''\<newline>These are NOT things you are purposely hiding. They are contextual details that help the operator understand the situation better; they simply don't come up until the operator asks the right questions (e.g. suspect description, layout, who else is present). When the operator probes or asks relevant questions, provide these details naturally.''])
          else Inr []
      | _ \<Rightarrow> Inr [])\<close>

text \<open>Lines 269-272.\<close>

definition voice_part :: "formatter \<Rightarrow> pydict \<Rightarrow> error + string list" where
  \<open>voice_part fmt payload =
     and_then (as_dict (py_or (dict_get payload ''persona'') (JObj []))) (\<lambda>persona.
       (let voice_desc = py_or (dict_get persona ''voice_description'') (JStr '''')
        in if truthy voice_desc
           then and_then (py_str fmt voice_desc)
                  (\<lambda>text. Inr [''## Voice / how to speak\<newline>You sound like: '' @ text])
           else Inr []))\<close>

text \<open>Lines 274-276.\<close>

definition dialogue_part :: "formatter \<Rightarrow> pydict \<Rightarrow> error + string list" where
  \<open>dialogue_part fmt payload =
     (let dialogue_dir = py_or (dict_get payload ''dialogue_directions'') (JStr '''')
      in if truthy dialogue_dir
         then and_then (py_str fmt dialogue_dir)
                (\<lambda>text. Inr [''## Dialogue / acting directions\<newline>'' @ text])
         else Inr [])\<close>

text \<open>Lines 278-281.\<close>

definition response_part :: "formatter \<Rightarrow> pydict \<Rightarrow> error + string list" where
  \<open>response_part fmt payload =
     (case dict_get payload ''response_behavior'' of
        JList response_beh \<Rightarrow>
          if response_beh \<noteq> []
          then and_then (bullet_lines fmt response_beh)
                 (\<lambda>lines. Inr [''## How to react to the operator\<newline>'' @ lines])
          else Inr []
      | _ \<Rightarrow> Inr [])\<close>

text \<open>Lines 283-285.\<close>

definition opening_part :: "formatter \<Rightarrow> pydict \<Rightarrow> error + string list" where
  \<open>opening_part fmt payload =
     (let opening = py_or (dict_get payload ''opening_line'') (JStr '''')
      in if truthy opening
         then and_then (py_str fmt opening) (\<lambda>text.
                Inr [''## Opening line\<newline>When the call connects, start with something like: "''
                     @ text @ ''"''])
         else Inr [])\<close>

text \<open>Lines 287-290.\<close>

definition do_not_part :: "formatter \<Rightarrow> pydict \<Rightarrow> error + string list" where
  \<open>do_not_part fmt payload =
     (case dict_get payload ''do_not_say'' of
        JList do_not \<Rightarrow>
          if do_not \<noteq> []
          then and_then (bullet_lines fmt do_not)
                 (\<lambda>lines. Inr [''## Do NOT say (stay in character)\<newline>'' @ lines])
          else Inr []
      | _ \<Rightarrow> Inr [])\<close>

text \<open>Lines 292-294.\<close>

definition behavior_part :: "formatter \<Rightarrow> pydict \<Rightarrow> error + string list" where
  \<open>behavior_part fmt payload =
     (let behavior = py_or (dict_get payload ''behavior_notes'') (JStr '''')
      in if truthy behavior
         then and_then (py_str fmt behavior) (\<lambda>text. Inr [''## Behavioral notes\<newline>'' @ text])
         else Inr [])\<close>

text \<open>
  The list \<^verbatim>\<open>parts\<close> at line 296: the blocks run in the order of the source, and the
  first exception escapes.
\<close>

definition build_parts :: "formatter \<Rightarrow> pydict \<Rightarrow> error + string list" where
  "build_parts fmt payload =
     collect [role_part fmt payload, caller_details_part fmt payload, summary_part fmt payload,
              critical_part fmt payload, withheld_part fmt payload, voice_part fmt payload,
              dialogue_part fmt payload, response_part fmt payload, opening_part fmt payload,
              do_not_part fmt payload, behavior_part fmt payload]"

text \<open>Line 296.\<close>

definition join_parts :: "string list \<Rightarrow> string" where
  \<open>join_parts parts = (if parts \<noteq> [] then py_join ''\<newline>\<newline>'' parts else '''')\<close>

definition build_voice_agent_system_prompt :: "formatter \<Rightarrow> pydict \<Rightarrow> error + string" where
  "build_voice_agent_system_prompt fmt payload =
     and_then (build_parts fmt payload) (\<lambda>parts. Inr (join_parts parts))"

section \<open>The generator: \<^verbatim>\<open>generate_scenario\<close>\<close>

text \<open>
  The function reads the environment, calls the chat-completion client, parses the answer
  and draws a random identifier. The outcomes of these four steps are arguments of the
  model:
  \<^item> \<open>api_key\<close>: the value of \<^verbatim>\<open>os.environ.get("OPENAI_API_KEY")\<close>;
  \<^item> \<open>response\<close>: what the client call of lines 205-217 does, \<open>Inl cause\<close> when it raises
    and \<open>Inr content\<close> with the message content (a string or \<^verbatim>\<open>None\<close>) otherwise;
  \<^item> \<open>decoded\<close>: what \<^verbatim>\<open>json.loads(content)\<close> does on a string, \<open>Inl failure\<close> when it
    raises and \<open>Inr v\<close> with the parsed value otherwise;
  \<^item> \<open>uuid4_hex\<close>: the text of \<^verbatim>\<open>uuid.uuid4().hex\<close>.
\<close>

text \<open>
  The ways in which \<^verbatim>\<open>json.loads\<close> fails on a string. Text that is not JSON raises
  \<^verbatim>\<open>JSONDecodeError\<close>, which the library builds with the text being parsed as its \<^verbatim>\<open>doc\<close>.
  An integer literal with more digits than the interpreter's limit raises a plain
  \<^verbatim>\<open>ValueError\<close> whose message starts with \<^verbatim>\<open>Exceeds the limit\<close>, and nesting beyond the
  recursion limit raises \<^verbatim>\<open>RecursionError\<close>; neither holds the text.
\<close>

datatype loads_error =
    Malformed string
  | IntegerTooLong string
  | NestingTooDeep string

fun loads_exception :: "string \<Rightarrow> loads_error \<Rightarrow> error" where
  "loads_exception text (Malformed msg) = JSONDecodeError msg text"
| "loads_exception text (IntegerTooLong detail) = ValueError (''Exceeds the limit '' @ detail)"
| "loads_exception text (NestingTooDeep msg) = RecursionError msg"

definition invalid_difficulty :: error where
  "invalid_difficulty = ValueError ''difficulty must be one of: easy, medium, hard''"

definition missing_credentials :: error where
  "missing_credentials = ValueError ''OPENAI_API_KEY environment variable is not set''"

text \<open>Lines 222-225: the repair of the identity fields of the scenario record.\<close>

definition repair_scenario :: "string \<Rightarrow> pydict \<Rightarrow> pydict" where
  "repair_scenario uuid4_hex scenario =
     (let scenario1 =
            (if \<not> truthy (dict_get scenario ''id'')
             then dict_set scenario ''id'' (JStr (''scenario-'' @ take 8 uuid4_hex))
             else scenario)
      in if dict_get scenario1 ''language'' \<noteq> JStr ''en''
         then dict_set scenario1 ''language'' (JStr ''en'')
         else scenario1)"

text \<open>
  Lines 218-228: parsing the content and writing the repaired record back. The record
  inside the payload is the object that lines 222-225 change, so the write of line 226
  stores the repaired record under its key.
\<close>

definition normalize_content ::
  "string \<Rightarrow> string option \<Rightarrow> loads_error + json \<Rightarrow> error + pydict" where
  "normalize_content uuid4_hex content decoded =
     (case content of
        None \<Rightarrow> Inl (TypeError ''the JSON object must be str, bytes or bytearray, not NoneType'')
      | Some text \<Rightarrow>
          (case decoded of
             Inl failure \<Rightarrow> Inl (loads_exception text failure)
           | Inr parsed \<Rightarrow>
               (case as_dict parsed of
                  Inl e \<Rightarrow> Inl e
                | Inr payload \<Rightarrow>
                    (case as_dict (dict_get_default payload ''scenario'' (JObj [])) of
                       Inl e \<Rightarrow> Inl e
                     | Inr scenario \<Rightarrow>
                         Inr (dict_set payload ''scenario'' (JObj (repair_scenario uuid4_hex scenario)))))))"

text \<open>Lines 198-228.\<close>

definition generate_scenario ::
  "string option \<Rightarrow> string + string option \<Rightarrow> loads_error + json \<Rightarrow> string \<Rightarrow> string
     \<Rightarrow> error + pydict" where
  "generate_scenario api_key response decoded uuid4_hex difficulty =
     (if difficulty \<notin> set [''easy'', ''medium'', ''hard''] then Inl invalid_difficulty
      else if api_key = None \<or> api_key = Some '''' then Inl missing_credentials
      else (case response of
              Inl cause \<Rightarrow> Inl (CollaboratorError cause)
            | Inr content \<Rightarrow> normalize_content uuid4_hex content decoded))"

section \<open>Notions used in the statements\<close>

text \<open>
  The record stored under a key (the empty record when the key holds anything else), and
  the condition under which line 221 reads a record: the \<open>scenario\<close> of the parsed payload
  is absent or a record.
\<close>

definition record_at :: "pydict \<Rightarrow> string \<Rightarrow> pydict" where
  "record_at d k = (case dict_get d k of JObj r \<Rightarrow> r | _ \<Rightarrow> [])"

definition scenario_is_record :: "pydict \<Rightarrow> bool" where
  "scenario_is_record payload =
     (case map_of payload ''scenario'' of None \<Rightarrow> True | Some (JObj sc) \<Rightarrow> True | Some _ \<Rightarrow> False)"

subsection \<open>Sections of the prompt\<close>

text \<open>
  Whether a step returned, and what it returned (nothing when it raised).
\<close>

fun is_ok :: "error + 'a \<Rightarrow> bool" where
  "is_ok (Inr x) = True"
| "is_ok (Inl e) = False"

fun returned :: "error + 'a list \<Rightarrow> 'a list" where
  "returned (Inr xs) = xs"
| "returned (Inl e) = []"

text \<open>\<^verbatim>\<open>del d[k]\<close> where the key is present, nothing otherwise.\<close>

definition dict_del :: "pydict \<Rightarrow> string \<Rightarrow> pydict" where
  "dict_del d k = AList.delete k d"

fun is_dict :: "json \<Rightarrow> bool" where
  "is_dict (JObj d) = True"
| "is_dict v = False"

fun is_list :: "json \<Rightarrow> bool" where
  "is_list (JList xs) = True"
| "is_list v = False"

fun list_items :: "json \<Rightarrow> json list" where
  "list_items (JList xs) = xs"
| "list_items v = []"

text \<open>
  The eleven sections in the order of the source, the block of the source that writes
  each of them, and the top-level key of the payload that the block reads.
\<close>

datatype prompt_section =
    Role | CallerDetails | Summary | CriticalInfo | Withheld | Voice
  | Dialogue | ResponseBehavior | OpeningLine | DoNotSay | BehaviorNotes

definition section_order :: "prompt_section list" where
  "section_order = [Role, CallerDetails, Summary, CriticalInfo, Withheld, Voice,
                    Dialogue, ResponseBehavior, OpeningLine, DoNotSay, BehaviorNotes]"

fun section_result :: "prompt_section \<Rightarrow> formatter \<Rightarrow> pydict \<Rightarrow> error + string list" where
  "section_result Role fmt payload = role_part fmt payload"
| "section_result CallerDetails fmt payload = caller_details_part fmt payload"
| "section_result Summary fmt payload = summary_part fmt payload"
| "section_result CriticalInfo fmt payload = critical_part fmt payload"
| "section_result Withheld fmt payload = withheld_part fmt payload"
| "section_result Voice fmt payload = voice_part fmt payload"
| "section_result Dialogue fmt payload = dialogue_part fmt payload"
| "section_result ResponseBehavior fmt payload = response_part fmt payload"
| "section_result OpeningLine fmt payload = opening_part fmt payload"
| "section_result DoNotSay fmt payload = do_not_part fmt payload"
| "section_result BehaviorNotes fmt payload = behavior_part fmt payload"

definition section_part :: "prompt_section \<Rightarrow> formatter \<Rightarrow> pydict \<Rightarrow> string list" where
  "section_part s fmt payload = returned (section_result s fmt payload)"

fun section_key :: "prompt_section \<Rightarrow> string" where
  "section_key Role = ''role_instruction''"
| "section_key CallerDetails = ''scenario''"
| "section_key Summary = ''scenario_summary_for_agent''"
| "section_key CriticalInfo = ''critical_info''"
| "section_key Withheld = ''withheld_information''"
| "section_key Voice = ''persona''"
| "section_key Dialogue = ''dialogue_directions''"
| "section_key ResponseBehavior = ''response_behavior''"
| "section_key OpeningLine = ''opening_line''"
| "section_key DoNotSay = ''do_not_say''"
| "section_key BehaviorNotes = ''behavior_notes''"

definition text_keys :: "string list" where
  "text_keys = [''role_instruction'', ''scenario_summary_for_agent'', ''dialogue_directions'',
                ''opening_line'', ''behavior_notes'']"

definition list_keys :: "string list" where
  "list_keys = [''critical_info'', ''withheld_information'', ''response_behavior'', ''do_not_say'']"

definition is_list_section :: "prompt_section \<Rightarrow> bool" where
  "is_list_section t = (t = CriticalInfo \<or> t = Withheld \<or> t = ResponseBehavior \<or> t = DoNotSay)"

text \<open>
  The field under a section: the top-level field of its key, except for the caller
  details and the voice, whose field is \<open>caller_profile\<close> inside the \<open>scenario\<close> record and
  \<open>voice_description\<close> inside the \<open>persona\<close> record. Removing the field, and storing
  a value in it; inside a \<open>scenario\<close> or \<open>persona\<close> that is not a record there is no
  field to remove or to store to, and the payload is left as it is.
\<close>

fun remove_field :: "prompt_section \<Rightarrow> pydict \<Rightarrow> pydict" where
  "remove_field CallerDetails payload =
     (case dict_get payload ''scenario'' of
        JObj scenario \<Rightarrow> dict_set payload ''scenario'' (JObj (dict_del scenario ''caller_profile''))
      | _ \<Rightarrow> payload)"
| "remove_field Voice payload =
     (case dict_get payload ''persona'' of
        JObj persona \<Rightarrow> dict_set payload ''persona'' (JObj (dict_del persona ''voice_description''))
      | _ \<Rightarrow> payload)"
| "remove_field s payload = dict_del payload (section_key s)"

fun set_field :: "prompt_section \<Rightarrow> json \<Rightarrow> pydict \<Rightarrow> pydict" where
  "set_field CallerDetails v payload =
     (case dict_get payload ''scenario'' of
        JObj scenario \<Rightarrow> dict_set payload ''scenario'' (JObj (dict_set scenario ''caller_profile'' v))
      | _ \<Rightarrow> payload)"
| "set_field Voice v payload =
     (case dict_get payload ''persona'' of
        JObj persona \<Rightarrow> dict_set payload ''persona'' (JObj (dict_set persona ''voice_description'' v))
      | _ \<Rightarrow> payload)"
| "set_field s v payload = dict_set payload (section_key s) v"

text \<open>
  The conditions under which the composer returns. The three values on which it calls
  \<^verbatim>\<open>.get\<close> must each be a record, or be replaced by the empty record of \<^verbatim>\<open>or {}\<close> because
  they are absent or falsy; and the formatter must return on every value that a section
  writes: the truthy text fields, the items of the list fields, the values of the
  profile keys that are neither \<^verbatim>\<open>None\<close> nor the empty string, and a truthy voice
  description.
\<close>

definition record_or_empty :: "json \<Rightarrow> bool" where
  "record_or_empty v = (is_dict v \<or> \<not> truthy v)"

definition records_ok :: "pydict \<Rightarrow> bool" where
  "records_ok payload =
     (record_or_empty (dict_get payload ''scenario'')
      \<and> record_or_empty (dict_get (record_at payload ''scenario'') ''caller_profile'')
      \<and> record_or_empty (dict_get payload ''persona''))"

definition caller_profile_of :: "pydict \<Rightarrow> pydict" where
  "caller_profile_of payload = record_at (record_at payload ''scenario'') ''caller_profile''"

definition voice_description_of :: "pydict \<Rightarrow> json" where
  "voice_description_of payload = dict_get (record_at payload ''persona'') ''voice_description''"

definition profile_values :: "pydict \<Rightarrow> json list" where
  \<open>profile_values payload =
     filter (\<lambda>val. val \<noteq> JNull \<and> val \<noteq> JStr '''')
       (map (dict_get (caller_profile_of payload)) profile_keys)\<close>

definition written_values :: "pydict \<Rightarrow> json list" where
  "written_values payload =
     filter truthy (map (dict_get payload) text_keys)
     @ concat (map (\<lambda>k. list_items (dict_get payload k)) list_keys)
     @ profile_values payload
     @ filter truthy [voice_description_of payload]"

definition formats_ok :: "formatter \<Rightarrow> pydict \<Rightarrow> bool" where
  "formats_ok fmt payload = list_all (\<lambda>v. is_ok (py_str fmt v)) (written_values payload)"

text \<open>
  A payload in which every section has something to write, and one in which none has.
\<close>

definition all_sections_present :: "pydict \<Rightarrow> bool" where
  "all_sections_present payload =
     (list_all (\<lambda>k. truthy (dict_get payload k)) text_keys
      \<and> list_all (\<lambda>k. is_list (dict_get payload k) \<and> truthy (dict_get payload k)) list_keys
      \<and> profile_values payload \<noteq> []
      \<and> truthy (voice_description_of payload))"

definition all_data_empty :: "pydict \<Rightarrow> bool" where
  "all_data_empty payload =
     (list_all (\<lambda>k. \<not> truthy (dict_get payload k)) (text_keys @ list_keys)
      \<and> profile_values payload = []
      \<and> \<not> truthy (voice_description_of payload))"

text \<open>What the formatter writes for a value, and the bullets of the caller profile.\<close>

definition text_of :: "formatter \<Rightarrow> json \<Rightarrow> string" where
  "text_of fmt v = returned (py_str fmt v)"

definition bullets_of :: "formatter \<Rightarrow> json \<Rightarrow> string" where
  "bullets_of fmt v = returned (bullet_lines fmt (list_items v))"

definition profile_bullets :: "formatter \<Rightarrow> pydict \<Rightarrow> string list" where
  "profile_bullets fmt payload =
     returned (collect (map (profile_line fmt (caller_profile_of payload)) profile_keys))"

text \<open>A payload with all eleven sections, and the formatter on its one value that is not a string.\<close>

definition maria_payload :: pydict where
  "maria_payload =
     [(''role_instruction'', JStr ''You are Maria, 34, calling about a kitchen fire.''),
      (''scenario'', JObj [(''caller_profile'', JObj [(''name'', JStr ''Maria''), (''age'', JInt 34)])]),
      (''scenario_summary_for_agent'', JStr ''A pan caught fire.''),
      (''critical_info'', JList [JStr ''Address is 12 Oak St'', JStr ''Fire is in the kitchen'']),
      (''withheld_information'', JList [JStr ''A child is upstairs'']),
      (''persona'', JObj [(''voice_description'', JStr ''anxious but coherent'')]),
      (''dialogue_directions'', JStr ''Some hesitation.''),
      (''response_behavior'', JList [JStr ''Give address only after being asked'']),
      (''opening_line'', JStr ''Help, my kitchen is on fire!''),
      (''do_not_say'', JList [JStr ''I am an AI'']),
      (''behavior_notes'', JStr ''May repeat herself.'')]"

definition maria_fmt :: formatter where
  "maria_fmt v = (if v = JInt 34 then Inr ''34'' else Inl (ValueError ''not a value of the example''))"

section \<open>Dictionary and normalization lemmas\<close>

lemma map_of_dict_set: "map_of (dict_set d k v) = (map_of d)(k \<mapsto> v)"
  by (simp add: dict_set_def update_conv')

lemma dict_get_dict_set: "dict_get (dict_set d k v) k' = (if k' = k then v else dict_get d k')"
  by (simp add: dict_get_def dict_get_default_def map_of_dict_set)

lemma filter_dict_set:
  "\<not> P k \<Longrightarrow> filter (\<lambda>e. P (fst e)) (dict_set d k v) = filter (\<lambda>e. P (fst e)) d"
  unfolding dict_set_def by (induction d) auto

lemma as_dict_Inr: "(as_dict v = Inr d) = (v = JObj d)"
  by (cases v) auto

lemma as_dict_Inl: "as_dict v = Inl e \<Longrightarrow> \<exists>t. e = AttributeError t"
  by (cases v) auto

lemma scenario_lookup:
  "as_dict (dict_get_default payload ''scenario'' (JObj [])) = Inr sc
     \<longleftrightarrow> scenario_is_record payload \<and> sc = record_at payload ''scenario''"
  unfolding scenario_is_record_def record_at_def dict_get_def dict_get_default_def
  by (cases "map_of payload ''scenario''") (auto simp: as_dict_Inr split: json.splits)

lemma normalize_object:
  "normalize_content u (Some text) (Inr (JObj payload)) =
     (case as_dict (dict_get_default payload ''scenario'' (JObj [])) of
        Inl e \<Rightarrow> Inl e
      | Inr sc \<Rightarrow> Inr (dict_set payload ''scenario'' (JObj (repair_scenario u sc))))"
  unfolding normalize_content_def by simp

lemma normalize_object_Inr:
  "normalize_content u (Some text) (Inr (JObj payload)) = Inr result \<longleftrightarrow>
     scenario_is_record payload \<and>
     result = dict_set payload ''scenario'' (JObj (repair_scenario u (record_at payload ''scenario'')))"
proof (cases "as_dict (dict_get_default payload ''scenario'' (JObj []))")
  case (Inl e)
  then have "\<not> scenario_is_record payload"
    using scenario_lookup [of payload "record_at payload ''scenario''"] by simp
  with Inl show ?thesis by (simp add: normalize_object)
next
  case (Inr sc)
  then have "scenario_is_record payload" "sc = record_at payload ''scenario''"
    using scenario_lookup [of payload sc] by simp_all
  with Inr show ?thesis by (auto simp: normalize_object)
qed

lemma loads_exception_cases:
  "(\<exists>m. loads_exception text failure = JSONDecodeError m text)
   \<or> (\<exists>d. loads_exception text failure = ValueError (''Exceeds the limit '' @ d))
   \<or> (\<exists>m. loads_exception text failure = RecursionError m)"
  by (cases failure) simp_all

lemma normalize_content_Inl:
  assumes "normalize_content u content decoded = Inl e"
  shows "(\<exists>m. e = TypeError m) \<or> (\<exists>m t. e = JSONDecodeError m t) \<or> (\<exists>t. e = AttributeError t)
     \<or> (\<exists>d. e = ValueError (''Exceeds the limit '' @ d)) \<or> (\<exists>m. e = RecursionError m)"
proof (cases content)
  case None
  with assms show ?thesis by (auto simp: normalize_content_def)
next
  case (Some doc)
  show ?thesis
  proof (cases decoded)
    case (Inl failure)
    with Some assms have "e = loads_exception doc failure"
      by (simp add: normalize_content_def)
    then show ?thesis
      using loads_exception_cases [of doc failure] by auto
  next
    case (Inr v)
    with Some assms show ?thesis
      by (auto simp: normalize_content_def split: sum.splits dest: as_dict_Inl)
  qed
qed

lemma repair_language: "map_of (repair_scenario u sc) ''language'' = Some (JStr ''en'')"
  unfolding repair_scenario_def Let_def
  by (auto simp: map_of_dict_set dict_get_def dict_get_default_def split: option.splits)

lemma repair_id_fresh:
  "\<not> truthy (dict_get sc ''id'') \<Longrightarrow>
     map_of (repair_scenario u sc) ''id'' = Some (JStr (''scenario-'' @ take 8 u))"
  unfolding repair_scenario_def Let_def
  by (simp add: map_of_dict_set)

lemma repair_id_kept:
  "truthy (dict_get sc ''id'') \<Longrightarrow> map_of (repair_scenario u sc) ''id'' = map_of sc ''id''"
  unfolding repair_scenario_def Let_def
  by (simp add: map_of_dict_set)

lemma truthy_dict_get: "truthy (dict_get d k) \<Longrightarrow> map_of d k = Some (dict_get d k)"
  unfolding dict_get_def dict_get_default_def by (cases "map_of d k") auto

lemma filter_dict_set2:
  "k = a \<or> k = b \<Longrightarrow>
     filter (\<lambda>e. fst e \<noteq> a \<and> fst e \<noteq> b) (dict_set d k v)
       = filter (\<lambda>e. fst e \<noteq> a \<and> fst e \<noteq> b) d"
  unfolding dict_set_def by (induction d) auto

lemma repair_frame:
  "filter (\<lambda>e. fst e \<noteq> ''id'' \<and> fst e \<noteq> ''language'') (repair_scenario u sc)
     = filter (\<lambda>e. fst e \<noteq> ''id'' \<and> fst e \<noteq> ''language'') sc"
  unfolding repair_scenario_def Let_def
  by (simp add: filter_dict_set2)

lemma map_of_filter2:
  "k \<noteq> a \<and> k \<noteq> b \<Longrightarrow>
     map_of (filter (\<lambda>e. fst e \<noteq> a \<and> fst e \<noteq> b) d) k = map_of d k"
  by (induction d) auto

section \<open>Composer lemmas\<close>

subsection \<open>Steps that return\<close>

lemma is_ok_returned: "is_ok r \<Longrightarrow> r = Inr (returned r)"
  by (cases r) simp_all

lemma is_ok_iff: "is_ok r = (\<exists>x. r = Inr x)"
  by (cases r) simp_all

lemma and_then_ok: "is_ok (and_then r (\<lambda>x. Inr (g x))) = is_ok r"
  by (cases r) simp_all

lemma and_then_returned: "is_ok r \<Longrightarrow> and_then r f = f (returned r)"
  by (cases r) simp_all

lemma collect_ok: "is_ok (collect rs) = list_all is_ok rs"
proof (induction rs)
  case Nil
  show ?case by simp
next
  case (Cons r rs)
  then show ?case
    by (cases r; cases "collect rs") simp_all
qed

lemma collect_Inr: "list_all is_ok rs \<Longrightarrow> collect rs = Inr (concat (map returned rs))"
proof (induction rs)
  case Nil
  show ?case by simp
next
  case (Cons r rs)
  then show ?case by (cases r) simp_all
qed

lemma list_all_filter: "list_all P (filter Q xs) = list_all (\<lambda>x. Q x \<longrightarrow> P x) xs"
  by (induction xs) simp_all

lemma list_all_concat_map: "list_all P (concat (map f xs)) = list_all (\<lambda>x. list_all P (f x)) xs"
  by (induction xs) simp_all

subsection \<open>Dictionaries\<close>

lemma dict_get_Nil: "dict_get [] k = JNull"
  by (simp add: dict_get_def dict_get_default_def)

lemma dict_get_dict_del: "dict_get (dict_del d k) k' = (if k' = k then JNull else dict_get d k')"
  by (simp add: dict_get_def dict_get_default_def dict_del_def delete_conv')

lemma record_at_JObj: "dict_get d k = JObj r \<Longrightarrow> record_at d k = r"
  by (simp add: record_at_def)

lemma record_at_not_dict: "\<not> is_dict (dict_get d k) \<Longrightarrow> record_at d k = []"
  by (cases "dict_get d k") (simp_all add: record_at_def)

lemma record_at_falsy: "\<not> truthy (dict_get d k) \<Longrightarrow> record_at d k = []"
  by (cases "dict_get d k") (auto simp: record_at_def)

lemma record_at_nonempty: "record_at d k \<noteq> [] \<Longrightarrow> is_dict (dict_get d k)"
  using record_at_not_dict by blast

lemma is_dict_obtain: "is_dict v \<Longrightarrow> \<exists>d. v = JObj d"
  by (cases v) auto

lemma as_dict_or_empty:
  "as_dict (py_or v (JObj [])) = (if record_or_empty v then Inr (case v of JObj r \<Rightarrow> r | _ \<Rightarrow> [])
                                  else Inl (AttributeError (type_name v)))"
  by (cases v) (auto simp: py_or_def record_or_empty_def)

lemma as_dict_or_empty_record:
  "record_or_empty (dict_get d k) \<Longrightarrow> as_dict (py_or (dict_get d k) (JObj [])) = Inr (record_at d k)"
  by (simp add: as_dict_or_empty record_at_def)

subsection \<open>The blocks, without \<^verbatim>\<open>or\<close>\<close>

lemma py_or_empty_str: "py_or v (JStr []) = (if truthy v then v else JStr [])"
  by (simp add: py_or_def)

lemma role_part_eq:
  \<open>role_part fmt payload =
     (if truthy (dict_get payload ''role_instruction'')
      then and_then (py_str fmt (dict_get payload ''role_instruction''))
             (\<lambda>text. Inr [''## Role\<newline>'' @ text])
      else Inr [])\<close>
  by (simp add: role_part_def py_or_empty_str)

lemma summary_part_eq:
  \<open>summary_part fmt payload =
     (if truthy (dict_get payload ''scenario_summary_for_agent'')
      then and_then (py_str fmt (dict_get payload ''scenario_summary_for_agent''))
             (\<lambda>text. Inr [''## Scenario summary (ground truth)\<newline>'' @ text])
      else Inr [])\<close>
  by (simp add: summary_part_def py_or_empty_str)

lemma dialogue_part_eq:
  \<open>dialogue_part fmt payload =
     (if truthy (dict_get payload ''dialogue_directions'')
      then and_then (py_str fmt (dict_get payload ''dialogue_directions''))
             (\<lambda>text. Inr [''## Dialogue / acting directions\<newline>'' @ text])
      else Inr [])\<close>
  by (simp add: dialogue_part_def py_or_empty_str)

lemma opening_part_eq:
  \<open>opening_part fmt payload =
     (if truthy (dict_get payload ''opening_line'')
      then and_then (py_str fmt (dict_get payload ''opening_line'')) (\<lambda>text.
             Inr [''## Opening line\<newline>When the call connects, start with something like: "''
                  @ text @ ''"''])
      else Inr [])\<close>
  by (simp add: opening_part_def py_or_empty_str)

lemma behavior_part_eq:
  \<open>behavior_part fmt payload =
     (if truthy (dict_get payload ''behavior_notes'')
      then and_then (py_str fmt (dict_get payload ''behavior_notes''))
             (\<lambda>text. Inr [''## Behavioral notes\<newline>'' @ text])
      else Inr [])\<close>
  by (simp add: behavior_part_def py_or_empty_str)

lemma critical_part_eq:
  \<open>critical_part fmt payload =
     (if is_list (dict_get payload ''critical_info'') \<and> truthy (dict_get payload ''critical_info'')
      then and_then (bullet_lines fmt (list_items (dict_get payload ''critical_info''))) (\<lambda>lines.
             Inr [''## Critical information to convey (reveal when the operator asks; do not dump all at once)\<newline>''
                  @ lines])
      else Inr [])\<close>
  by (cases "dict_get payload ''critical_info''") (simp_all add: critical_part_def)

lemma withheld_part_eq:
  \<open>withheld_part fmt payload =
     (if is_list (dict_get payload ''withheld_information'') \<and> truthy (dict_get payload ''withheld_information'')
      then and_then (bullet_lines fmt (list_items (dict_get payload ''withheld_information''))) (\<lambda>lines.
             Inr [''## Details that emerge with operator probing\<newline>'' @ lines
                  @ ''\<newline>These are NOT things you are purposely hiding. They are contextual details that help the operator understand the situation better; they simply don't come up until the operator asks the right questions (e.g. suspect description, layout, who else is present). When the operator probes or asks relevant questions, provide these details naturally.''])
      else Inr [])\<close>
  by (cases "dict_get payload ''withheld_information''") (simp_all add: withheld_part_def)

lemma response_part_eq:
  \<open>response_part fmt payload =
     (if is_list (dict_get payload ''response_behavior'') \<and> truthy (dict_get payload ''response_behavior'')
      then and_then (bullet_lines fmt (list_items (dict_get payload ''response_behavior'')))
             (\<lambda>lines. Inr [''## How to react to the operator\<newline>'' @ lines])
      else Inr [])\<close>
  by (cases "dict_get payload ''response_behavior''") (simp_all add: response_part_def)

lemma do_not_part_eq:
  \<open>do_not_part fmt payload =
     (if is_list (dict_get payload ''do_not_say'') \<and> truthy (dict_get payload ''do_not_say'')
      then and_then (bullet_lines fmt (list_items (dict_get payload ''do_not_say'')))
             (\<lambda>lines. Inr [''## Do NOT say (stay in character)\<newline>'' @ lines])
      else Inr [])\<close>
  by (cases "dict_get payload ''do_not_say''") (simp_all add: do_not_part_def)

lemma caller_details_part_eq:
  assumes "record_or_empty (dict_get payload ''scenario'')"
    and "record_or_empty (dict_get (record_at payload ''scenario'') ''caller_profile'')"
  shows \<open>caller_details_part fmt payload =
     and_then (collect (map (profile_line fmt (caller_profile_of payload)) profile_keys))
       (\<lambda>profile_parts.
          Inr (if profile_parts \<noteq> []
               then [''## Caller personal details\<newline>'' @ py_join ''\<newline>'' profile_parts]
               else []))\<close>
  unfolding caller_details_part_def caller_profile_of_def
  by (simp only: as_dict_or_empty_record [OF assms(1)] as_dict_or_empty_record [OF assms(2)]
      and_then.simps)

lemma caller_details_part_fails:
  assumes "\<not> (record_or_empty (dict_get payload ''scenario'')
              \<and> record_or_empty (dict_get (record_at payload ''scenario'') ''caller_profile''))"
  shows "\<not> is_ok (caller_details_part fmt payload)"
proof (cases "record_or_empty (dict_get payload ''scenario'')")
  case False
  then show ?thesis
    unfolding caller_details_part_def by (simp add: as_dict_or_empty)
next
  case True
  with assms have "\<not> record_or_empty (dict_get (record_at payload ''scenario'') ''caller_profile'')"
    by simp
  then show ?thesis
    unfolding caller_details_part_def
    by (simp only: as_dict_or_empty_record [OF True] and_then.simps) (simp add: as_dict_or_empty)
qed

lemma voice_part_eq:
  assumes "record_or_empty (dict_get payload ''persona'')"
  shows \<open>voice_part fmt payload =
     (if truthy (voice_description_of payload)
      then and_then (py_str fmt (voice_description_of payload))
             (\<lambda>text. Inr [''## Voice / how to speak\<newline>You sound like: '' @ text])
      else Inr [])\<close>
  unfolding voice_part_def voice_description_of_def
  by (simp only: as_dict_or_empty_record [OF assms] and_then.simps) (simp add: py_or_empty_str)

lemma voice_part_fails:
  "\<not> record_or_empty (dict_get payload ''persona'') \<Longrightarrow> \<not> is_ok (voice_part fmt payload)"
  unfolding voice_part_def by (simp add: as_dict_or_empty)

subsection \<open>Each block reads one top-level key\<close>

lemma section_key_inj: "(section_key s = section_key t) = (s = t)"
  by (cases s; cases t) simp_all

lemma section_result_cong:
  assumes "dict_get p (section_key t) = dict_get q (section_key t)"
  shows "section_result t fmt p = section_result t fmt q"
  using assms
  by (cases t)
    (simp_all add: role_part_def caller_details_part_def summary_part_def critical_part_def
      withheld_part_def voice_part_def dialogue_part_def response_part_def opening_part_def
      do_not_part_def behavior_part_def)

lemma profile_lines_empty:
  "collect (map (profile_line fmt []) profile_keys) = Inr []"
  by (simp add: profile_line_def profile_keys_def dict_get_Nil)

lemma caller_details_no_profile:
  assumes "record_or_empty (dict_get payload ''scenario'')"
    and "\<not> truthy (dict_get (record_at payload ''scenario'') ''caller_profile'')"
  shows "caller_details_part fmt payload = Inr []"
proof -
  from assms(2) have r: "record_or_empty (dict_get (record_at payload ''scenario'') ''caller_profile'')"
    by (simp add: record_or_empty_def)
  from assms(2) have "caller_profile_of payload = []"
    unfolding caller_profile_of_def by (rule record_at_falsy)
  then show ?thesis
    by (simp add: caller_details_part_eq [OF assms(1) r] profile_lines_empty)
qed

lemma voice_no_description:
  assumes "record_or_empty (dict_get payload ''persona'')"
    and "\<not> truthy (voice_description_of payload)"
  shows "voice_part fmt payload = Inr []"
  using assms(2) by (simp add: voice_part_eq [OF assms(1)])

lemma falsy_not_dict: "\<not> truthy v \<Longrightarrow> record_or_empty v"
  by (simp add: record_or_empty_def)

lemma section_result_absent:
  assumes "\<not> truthy (dict_get payload (section_key t))"
  shows "section_result t fmt payload = Inr []"
proof (cases t)
  case CallerDetails
  with assms have f: "\<not> truthy (dict_get payload ''scenario'')" by simp
  then have "record_or_empty (dict_get payload ''scenario'')"
    by (rule falsy_not_dict)
  moreover from f have "\<not> truthy (dict_get (record_at payload ''scenario'') ''caller_profile'')"
    by (simp add: record_at_falsy dict_get_Nil)
  ultimately show ?thesis
    using CallerDetails by (simp add: caller_details_no_profile)
next
  case Voice
  with assms have f: "\<not> truthy (dict_get payload ''persona'')" by simp
  then have "record_or_empty (dict_get payload ''persona'')"
    by (rule falsy_not_dict)
  moreover from f have "\<not> truthy (voice_description_of payload)"
    by (simp add: voice_description_of_def record_at_falsy dict_get_Nil)
  ultimately show ?thesis
    using Voice by (simp add: voice_no_description)
qed (use assms in \<open>simp_all add: role_part_eq summary_part_eq critical_part_eq withheld_part_eq
      dialogue_part_eq response_part_eq opening_part_eq do_not_part_eq behavior_part_eq\<close>)

lemma list_section_not_list:
  assumes "\<not> is_list (dict_get payload (section_key t))" and "is_list_section t"
  shows "section_result t fmt payload = Inr []"
  using assms
  by (auto simp: is_list_section_def critical_part_eq withheld_part_eq response_part_eq do_not_part_eq)

lemma list_keys_sections:
  "list_keys = map section_key [CriticalInfo, Withheld, ResponseBehavior, DoNotSay]"
  by (simp add: list_keys_def)

lemma list_key_section:
  assumes "k \<in> set list_keys"
  shows "\<exists>t. section_key t = k \<and> is_list_section t"
proof -
  from assms obtain t where "t \<in> set [CriticalInfo, Withheld, ResponseBehavior, DoNotSay]"
    and "section_key t = k"
    unfolding list_keys_sections set_map by blast
  then show ?thesis
    by (auto simp del: section_key.simps simp: is_list_section_def)
qed

subsection \<open>The prompt from its sections\<close>

lemma section_order_all: "t \<in> set section_order"
  by (cases t) (simp_all add: section_order_def)

lemma all_sections: "(\<forall>t. P t) = list_all P section_order"
  using section_order_all by (auto simp: list_all_iff)

lemma build_parts_sections:
  "build_parts fmt payload = collect (map (\<lambda>t. section_result t fmt payload) section_order)"
  by (simp only: build_parts_def section_order_def list.map section_result.simps)

lemma build_same:
  assumes "\<And>t. section_result t fmt p = section_result t fmt' q"
  shows "build_voice_agent_system_prompt fmt p = build_voice_agent_system_prompt fmt' q"
  by (simp only: build_voice_agent_system_prompt_def build_parts_sections assms)

lemma build_ok_iff:
  "is_ok (build_voice_agent_system_prompt fmt payload) = (\<forall>t. is_ok (section_result t fmt payload))"
  by (simp only: build_voice_agent_system_prompt_def build_parts_sections and_then_ok collect_ok
      all_sections list_all_iff set_map ball_simps image_iff)

lemma build_sections:
  assumes "\<And>t. section_result t fmt payload = Inr (g t)"
  shows "build_voice_agent_system_prompt fmt payload
           = Inr (join_parts (concat (map g section_order)))"
proof -
  have "list_all is_ok (map (\<lambda>t. section_result t fmt payload) section_order)"
    by (simp add: assms list_all_iff)
  then have "collect (map (\<lambda>t. section_result t fmt payload) section_order)
               = Inr (concat (map returned (map (\<lambda>t. section_result t fmt payload) section_order)))"
    by (rule collect_Inr)
  also have "map returned (map (\<lambda>t. section_result t fmt payload) section_order) = map g section_order"
    by (simp add: assms)
  finally show ?thesis
    by (simp only: build_voice_agent_system_prompt_def build_parts_sections and_then.simps)
qed

lemma build_Inr:
  assumes "is_ok (build_voice_agent_system_prompt fmt payload)"
  shows "build_voice_agent_system_prompt fmt payload
           = Inr (join_parts (concat (map (\<lambda>t. section_part t fmt payload) section_order)))"
proof (rule build_sections)
  fix t
  from assms have "is_ok (section_result t fmt payload)"
    by (simp add: build_ok_iff)
  then show "section_result t fmt payload = Inr (section_part t fmt payload)"
    unfolding section_part_def by (rule is_ok_returned)
qed

subsection \<open>A payload changed in the field of one section\<close>

lemma section_result_returned:
  assumes "is_ok (build_voice_agent_system_prompt fmt p)"
  shows "section_result t fmt p = Inr (section_part t fmt p)"
proof -
  from assms have "is_ok (section_result t fmt p)"
    by (simp add: build_ok_iff)
  then show ?thesis
    unfolding section_part_def by (rule is_ok_returned)
qed

lemma changed_one_section:
  assumes ok: "is_ok (build_voice_agent_system_prompt fmt p)"
    and other: "\<And>k. k \<noteq> section_key s \<Longrightarrow> dict_get q k = dict_get p k"
    and gone: "section_result s fmt q = Inr []"
  shows "build_voice_agent_system_prompt fmt q
           = Inr (join_parts (concat (map (\<lambda>t. if t = s then [] else section_part t fmt p)
                                           section_order)))"
proof (rule build_sections)
  fix t
  show "section_result t fmt q = Inr (if t = s then [] else section_part t fmt p)"
  proof (cases "t = s")
    case True
    with gone show ?thesis by simp
  next
    case False
    then have "section_key t \<noteq> section_key s" by (simp add: section_key_inj)
    then have "dict_get q (section_key t) = dict_get p (section_key t)" by (rule other)
    then have "section_result t fmt q = section_result t fmt p" by (rule section_result_cong)
    with False show ?thesis by (simp add: section_result_returned [OF ok])
  qed
qed

lemma remove_field_top:
  "s \<noteq> CallerDetails \<Longrightarrow> s \<noteq> Voice \<Longrightarrow> remove_field s p = dict_del p (section_key s)"
  by (cases s) simp_all

lemma set_field_top:
  "s \<noteq> CallerDetails \<Longrightarrow> s \<noteq> Voice \<Longrightarrow> set_field s v p = dict_set p (section_key s) v"
  by (cases s) simp_all

lemma omit_top_level:
  assumes ok: "is_ok (build_voice_agent_system_prompt fmt p)"
    and other: "\<And>k. k \<noteq> section_key s \<Longrightarrow> dict_get q k = dict_get p k"
    and falsy: "\<not> truthy (dict_get q (section_key s))"
  shows "build_voice_agent_system_prompt fmt q
           = Inr (join_parts (concat (map (\<lambda>t. if t = s then [] else section_part t fmt p)
                                           section_order)))"
proof (rule changed_one_section [OF ok other])
  from falsy show "section_result s fmt q = Inr []" by (rule section_result_absent)
qed

lemma omit_caller_details:
  assumes ok: "is_ok (build_voice_agent_system_prompt fmt p)"
    and falsy: "\<not> truthy (dict_get scenario' ''caller_profile'')"
  shows "build_voice_agent_system_prompt fmt (dict_set p ''scenario'' (JObj scenario'))
           = Inr (join_parts (concat (map (\<lambda>t. if t = CallerDetails then [] else section_part t fmt p)
                                           section_order)))"
proof (rule changed_one_section [OF ok])
  let ?q = "dict_set p ''scenario'' (JObj scenario')"
  show "dict_get ?q k = dict_get p k" if "k \<noteq> section_key CallerDetails" for k
    using that by (simp add: dict_get_dict_set)
  have g: "dict_get ?q ''scenario'' = JObj scenario'"
    by (simp add: dict_get_dict_set)
  then have r: "record_at ?q ''scenario'' = scenario'"
    by (rule record_at_JObj)
  have s: "record_or_empty (dict_get ?q ''scenario'')"
    by (simp add: g record_or_empty_def)
  from falsy have c: "\<not> truthy (dict_get (record_at ?q ''scenario'') ''caller_profile'')"
    by (simp add: r)
  from s c show "section_result CallerDetails fmt ?q = Inr []"
    by (simp add: caller_details_no_profile)
qed

lemma omit_voice:
  assumes ok: "is_ok (build_voice_agent_system_prompt fmt p)"
    and falsy: "\<not> truthy (dict_get persona' ''voice_description'')"
  shows "build_voice_agent_system_prompt fmt (dict_set p ''persona'' (JObj persona'))
           = Inr (join_parts (concat (map (\<lambda>t. if t = Voice then [] else section_part t fmt p)
                                           section_order)))"
proof (rule changed_one_section [OF ok])
  let ?q = "dict_set p ''persona'' (JObj persona')"
  show "dict_get ?q k = dict_get p k" if "k \<noteq> section_key Voice" for k
    using that by (simp add: dict_get_dict_set)
  have g: "dict_get ?q ''persona'' = JObj persona'"
    by (simp add: dict_get_dict_set)
  then have r: "record_at ?q ''persona'' = persona'"
    by (rule record_at_JObj)
  have s: "record_or_empty (dict_get ?q ''persona'')"
    by (simp add: g record_or_empty_def)
  from falsy have c: "\<not> truthy (voice_description_of ?q)"
    by (simp add: voice_description_of_def r)
  from s c show "section_result Voice fmt ?q = Inr []"
    by (simp add: voice_no_description)
qed

lemma nested_record_or_empty:
  assumes "is_ok (build_voice_agent_system_prompt fmt p)" and "s = CallerDetails \<or> s = Voice"
  shows "record_or_empty (dict_get p (section_key s))"
proof -
  from assms(1) have "is_ok (caller_details_part fmt p)" "is_ok (voice_part fmt p)"
    using build_ok_iff [of fmt p] section_result.simps(2,6) by metis+
  then have "record_or_empty (dict_get p ''scenario'')" "record_or_empty (dict_get p ''persona'')"
    using caller_details_part_fails [of p fmt] voice_part_fails [of p fmt] by blast+
  with assms(2) show ?thesis by auto
qed

lemma nested_absent:
  assumes ok: "is_ok (build_voice_agent_system_prompt fmt p)"
    and s: "s = CallerDetails \<or> s = Voice"
    and nd: "\<not> is_dict (dict_get p (section_key s))"
  shows "build_voice_agent_system_prompt fmt p
           = Inr (join_parts (concat (map (\<lambda>t. if t = s then [] else section_part t fmt p)
                                           section_order)))"
proof (rule changed_one_section [OF ok])
  from nested_record_or_empty [OF ok s] nd have "\<not> truthy (dict_get p (section_key s))"
    by (simp add: record_or_empty_def)
  then show "section_result s fmt p = Inr []" by (rule section_result_absent)
qed simp

lemma remove_field_noop:
  "s = CallerDetails \<or> s = Voice \<Longrightarrow> \<not> is_dict (dict_get p (section_key s)) \<Longrightarrow> remove_field s p = p"
  by (cases "dict_get p (section_key s)") auto

lemma set_field_noop:
  "s = CallerDetails \<or> s = Voice \<Longrightarrow> \<not> is_dict (dict_get p (section_key s)) \<Longrightarrow> set_field s v p = p"
  by (cases "dict_get p (section_key s)") auto

lemma field_cases:
  obtains (top) "s \<noteq> CallerDetails" "s \<noteq> Voice"
  | (noop) "s = CallerDetails \<or> s = Voice" "\<not> is_dict (dict_get p (section_key s))"
  | (details) scenario where "s = CallerDetails" "dict_get p ''scenario'' = JObj scenario"
  | (voice) persona where "s = Voice" "dict_get p ''persona'' = JObj persona"
proof (cases "s = CallerDetails \<or> s = Voice")
  case False
  then show ?thesis using top by simp
next
  case True
  show ?thesis
  proof (cases "is_dict (dict_get p (section_key s))")
    case False
    with True show ?thesis by (rule noop)
  next
    case d: True
    then obtain r where "dict_get p (section_key s) = JObj r"
      using is_dict_obtain by blast
    with True show ?thesis
      using details voice by auto
  qed
qed

lemma remove_field_omits:
  assumes ok: "is_ok (build_voice_agent_system_prompt fmt p)"
  shows "build_voice_agent_system_prompt fmt (remove_field s p)
           = Inr (join_parts (concat (map (\<lambda>t. if t = s then [] else section_part t fmt p)
                                           section_order)))"
proof (cases rule: field_cases [where s = s and p = p])
  case top
  show ?thesis
    unfolding remove_field_top [OF top]
    by (rule omit_top_level [OF ok]) (simp_all add: dict_get_dict_del)
next
  case noop
  then have "remove_field s p = p" by (rule remove_field_noop)
  with nested_absent [OF ok noop] show ?thesis by simp
next
  case (details scenario)
  have "\<not> truthy (dict_get (dict_del scenario ''caller_profile'') ''caller_profile'')"
    by (simp add: dict_get_dict_del)
  from omit_caller_details [OF ok this] show ?thesis
    by (simp add: details)
next
  case (voice persona)
  have "\<not> truthy (dict_get (dict_del persona ''voice_description'') ''voice_description'')"
    by (simp add: dict_get_dict_del)
  from omit_voice [OF ok this] show ?thesis
    by (simp add: voice)
qed

lemma set_field_omits:
  assumes ok: "is_ok (build_voice_agent_system_prompt fmt p)" and falsy: "\<not> truthy v"
  shows "build_voice_agent_system_prompt fmt (set_field s v p)
           = Inr (join_parts (concat (map (\<lambda>t. if t = s then [] else section_part t fmt p)
                                           section_order)))"
proof (cases rule: field_cases [where s = s and p = p])
  case top
  show ?thesis
    unfolding set_field_top [OF top]
    by (rule omit_top_level [OF ok]) (simp_all add: dict_get_dict_set falsy)
next
  case noop
  then have "set_field s v p = p" by (rule set_field_noop)
  with nested_absent [OF ok noop] show ?thesis by simp
next
  case (details scenario)
  have "\<not> truthy (dict_get (dict_set scenario ''caller_profile'' v) ''caller_profile'')"
    by (simp add: dict_get_dict_set falsy)
  from omit_caller_details [OF ok this] show ?thesis
    by (simp add: details)
next
  case (voice persona)
  have "\<not> truthy (dict_get (dict_set persona ''voice_description'' v) ''voice_description'')"
    by (simp add: dict_get_dict_set falsy)
  from omit_voice [OF ok this] show ?thesis
    by (simp add: voice)
qed

lemma list_field_same:
  assumes "\<not> is_list v" and "k \<in> set list_keys"
  shows "build_voice_agent_system_prompt fmt (dict_set payload k v)
           = build_voice_agent_system_prompt fmt (dict_del payload k)"
proof (rule build_same)
  fix t
  from assms(2) obtain s where s: "section_key s = k" "is_list_section s"
    using list_key_section by blast
  show "section_result t fmt (dict_set payload k v) = section_result t fmt (dict_del payload k)"
  proof (cases "t = s")
    case True
    have "section_result s fmt (dict_set payload k v) = Inr []"
      using assms(1) s by (intro list_section_not_list) (simp_all add: dict_get_dict_set)
    moreover have "section_result s fmt (dict_del payload k) = Inr []"
      using s by (intro section_result_absent) (simp add: dict_get_dict_del)
    ultimately show ?thesis using True by simp
  next
    case False
    then have "section_key t \<noteq> k" using s(1) by (simp add: section_key_inj [symmetric])
    then show ?thesis
      by (intro section_result_cong) (simp add: dict_get_dict_set dict_get_dict_del)
  qed
qed

subsection \<open>When the composer returns\<close>

lemma text_part_ok:
  "is_ok (role_part fmt payload)
     = (truthy (dict_get payload ''role_instruction'')
          \<longrightarrow> is_ok (py_str fmt (dict_get payload ''role_instruction'')))"
  "is_ok (summary_part fmt payload)
     = (truthy (dict_get payload ''scenario_summary_for_agent'')
          \<longrightarrow> is_ok (py_str fmt (dict_get payload ''scenario_summary_for_agent'')))"
  "is_ok (dialogue_part fmt payload)
     = (truthy (dict_get payload ''dialogue_directions'')
          \<longrightarrow> is_ok (py_str fmt (dict_get payload ''dialogue_directions'')))"
  "is_ok (opening_part fmt payload)
     = (truthy (dict_get payload ''opening_line'')
          \<longrightarrow> is_ok (py_str fmt (dict_get payload ''opening_line'')))"
  "is_ok (behavior_part fmt payload)
     = (truthy (dict_get payload ''behavior_notes'')
          \<longrightarrow> is_ok (py_str fmt (dict_get payload ''behavior_notes'')))"
  by (simp_all add: role_part_eq summary_part_eq dialogue_part_eq opening_part_eq behavior_part_eq
      and_then_ok)

lemma bullet_lines_ok:
  "is_ok (bullet_lines fmt items) = list_all (\<lambda>item. is_ok (py_str fmt item)) items"
  unfolding bullet_lines_def
  by (simp add: and_then_ok collect_ok list.pred_map comp_def)

lemma list_items_falsy: "\<not> truthy v \<Longrightarrow> list_items v = []"
  by (cases v) simp_all

lemma list_items_not_list: "\<not> is_list v \<Longrightarrow> list_items v = []"
  by (cases v) simp_all

lemma list_part_ok:
  "is_ok (critical_part fmt payload)
     = list_all (\<lambda>item. is_ok (py_str fmt item)) (list_items (dict_get payload ''critical_info''))"
  "is_ok (withheld_part fmt payload)
     = list_all (\<lambda>item. is_ok (py_str fmt item)) (list_items (dict_get payload ''withheld_information''))"
  "is_ok (response_part fmt payload)
     = list_all (\<lambda>item. is_ok (py_str fmt item)) (list_items (dict_get payload ''response_behavior''))"
  "is_ok (do_not_part fmt payload)
     = list_all (\<lambda>item. is_ok (py_str fmt item)) (list_items (dict_get payload ''do_not_say''))"
  by (auto simp: critical_part_eq withheld_part_eq response_part_eq do_not_part_eq and_then_ok
      bullet_lines_ok list_items_falsy list_items_not_list)

lemma profile_line_ok:
  \<open>is_ok (profile_line fmt caller_profile key)
     = (dict_get caller_profile key \<noteq> JNull \<and> dict_get caller_profile key \<noteq> JStr ''''
          \<longrightarrow> is_ok (py_str fmt (dict_get caller_profile key)))\<close>
  by (simp add: profile_line_def Let_def and_then_ok)

lemma profile_lines_ok:
  "is_ok (collect (map (profile_line fmt (caller_profile_of payload)) profile_keys))
     = list_all (\<lambda>v. is_ok (py_str fmt v)) (profile_values payload)"
  unfolding profile_values_def
  by (simp add: collect_ok list.pred_map comp_def list_all_filter profile_line_ok)

lemma caller_details_part_ok:
  "is_ok (caller_details_part fmt payload)
     = (record_or_empty (dict_get payload ''scenario'')
        \<and> record_or_empty (dict_get (record_at payload ''scenario'') ''caller_profile'')
        \<and> list_all (\<lambda>v. is_ok (py_str fmt v)) (profile_values payload))"
proof (cases "record_or_empty (dict_get payload ''scenario'')
              \<and> record_or_empty (dict_get (record_at payload ''scenario'') ''caller_profile'')")
  case True
  then have "caller_details_part fmt payload =
     and_then (collect (map (profile_line fmt (caller_profile_of payload)) profile_keys))
       (\<lambda>profile_parts.
          Inr (if profile_parts \<noteq> []
               then [''## Caller personal details\<newline>'' @ py_join ''\<newline>'' profile_parts]
               else []))"
    by (simp add: caller_details_part_eq)
  with True show ?thesis
    by (simp only: and_then_ok profile_lines_ok simp_thms)
next
  case False
  then show ?thesis
    using caller_details_part_fails [of payload fmt] by blast
qed

lemma voice_part_ok:
  "is_ok (voice_part fmt payload)
     = (record_or_empty (dict_get payload ''persona'')
        \<and> (truthy (voice_description_of payload) \<longrightarrow> is_ok (py_str fmt (voice_description_of payload))))"
proof (cases "record_or_empty (dict_get payload ''persona'')")
  case True
  then show ?thesis
    by (simp add: voice_part_eq and_then_ok)
next
  case False
  then show ?thesis
    using voice_part_fails [of payload fmt] by blast
qed

lemma formats_ok_iff:
  "formats_ok fmt payload =
     ((truthy (dict_get payload ''role_instruction'')
         \<longrightarrow> is_ok (py_str fmt (dict_get payload ''role_instruction'')))
      \<and> (truthy (dict_get payload ''scenario_summary_for_agent'')
         \<longrightarrow> is_ok (py_str fmt (dict_get payload ''scenario_summary_for_agent'')))
      \<and> (truthy (dict_get payload ''dialogue_directions'')
         \<longrightarrow> is_ok (py_str fmt (dict_get payload ''dialogue_directions'')))
      \<and> (truthy (dict_get payload ''opening_line'')
         \<longrightarrow> is_ok (py_str fmt (dict_get payload ''opening_line'')))
      \<and> (truthy (dict_get payload ''behavior_notes'')
         \<longrightarrow> is_ok (py_str fmt (dict_get payload ''behavior_notes'')))
      \<and> list_all (\<lambda>item. is_ok (py_str fmt item)) (list_items (dict_get payload ''critical_info''))
      \<and> list_all (\<lambda>item. is_ok (py_str fmt item)) (list_items (dict_get payload ''withheld_information''))
      \<and> list_all (\<lambda>item. is_ok (py_str fmt item)) (list_items (dict_get payload ''response_behavior''))
      \<and> list_all (\<lambda>item. is_ok (py_str fmt item)) (list_items (dict_get payload ''do_not_say''))
      \<and> list_all (\<lambda>v. is_ok (py_str fmt v)) (profile_values payload)
      \<and> (truthy (voice_description_of payload) \<longrightarrow> is_ok (py_str fmt (voice_description_of payload))))"
  unfolding formats_ok_def written_values_def text_keys_def list_keys_def
  by (simp only: list_all_append list_all_filter list_all_concat_map list.pred_map comp_def
      list.pred_inject list.map concat.simps append_Nil2 conj_assoc simp_thms)

lemma sections_ok_iff:
  "(\<forall>t. is_ok (section_result t fmt payload)) = (records_ok payload \<and> formats_ok fmt payload)"
proof -
  have "(\<forall>t. is_ok (section_result t fmt payload))
          = (is_ok (role_part fmt payload) \<and> is_ok (caller_details_part fmt payload)
             \<and> is_ok (summary_part fmt payload) \<and> is_ok (critical_part fmt payload)
             \<and> is_ok (withheld_part fmt payload) \<and> is_ok (voice_part fmt payload)
             \<and> is_ok (dialogue_part fmt payload) \<and> is_ok (response_part fmt payload)
             \<and> is_ok (opening_part fmt payload) \<and> is_ok (do_not_part fmt payload)
             \<and> is_ok (behavior_part fmt payload))"
    by (simp only: all_sections section_order_def list.pred_inject section_result.simps simp_thms
        conj_assoc)
  also have "\<dots> = (records_ok payload \<and> formats_ok fmt payload)"
    unfolding text_part_ok list_part_ok caller_details_part_ok voice_part_ok formats_ok_iff
      records_ok_def
    by blast
  finally show ?thesis .
qed

lemma build_ok:
  "is_ok (build_voice_agent_system_prompt fmt payload) = (records_ok payload \<and> formats_ok fmt payload)"
  by (simp only: build_ok_iff sections_ok_iff)

lemma records_ok_cong:
  "dict_get p ''scenario'' = dict_get q ''scenario'' \<Longrightarrow> dict_get p ''persona'' = dict_get q ''persona''
     \<Longrightarrow> records_ok p = records_ok q"
  by (simp add: records_ok_def record_at_def)

subsection \<open>Nothing to write\<close>

lemma collect_nothing: "(\<And>r. r \<in> set rs \<Longrightarrow> r = Inr []) \<Longrightarrow> collect rs = Inr []"
proof (induction rs)
  case Nil
  show ?case by simp
next
  case (Cons a rs)
  then have "a = Inr []" and "collect rs = Inr []" by simp_all
  then show ?case by simp
qed

lemma profile_lines_nothing:
  assumes "profile_values payload = []"
  shows "collect (map (profile_line fmt (caller_profile_of payload)) profile_keys) = Inr []"
proof (rule collect_nothing)
  fix r
  assume "r \<in> set (map (profile_line fmt (caller_profile_of payload)) profile_keys)"
  then obtain k where k: "k \<in> set profile_keys" and r: "r = profile_line fmt (caller_profile_of payload) k"
    by auto
  from assms have \<open>\<forall>val \<in> set (map (dict_get (caller_profile_of payload)) profile_keys).
                     \<not> (val \<noteq> JNull \<and> val \<noteq> JStr '''')\<close>
    by (simp only: profile_values_def filter_empty_conv)
  with k have \<open>\<not> (dict_get (caller_profile_of payload) k \<noteq> JNull
                   \<and> dict_get (caller_profile_of payload) k \<noteq> JStr '''')\<close>
    by (simp only: set_map) blast
  then show "r = Inr []"
    unfolding r profile_line_def by (auto simp: Let_def)
qed

lemma empty_sections:
  assumes ok: "records_ok payload" and e: "all_data_empty payload"
  shows "section_result t fmt payload = Inr []"
proof -
  from ok have s: "record_or_empty (dict_get payload ''scenario'')"
    and c: "record_or_empty (dict_get (record_at payload ''scenario'') ''caller_profile'')"
    and p: "record_or_empty (dict_get payload ''persona'')"
    by (simp_all add: records_ok_def)
  from e have f: "\<not> truthy (dict_get payload ''role_instruction'')"
    "\<not> truthy (dict_get payload ''scenario_summary_for_agent'')"
    "\<not> truthy (dict_get payload ''dialogue_directions'')"
    "\<not> truthy (dict_get payload ''opening_line'')"
    "\<not> truthy (dict_get payload ''behavior_notes'')"
    "\<not> truthy (dict_get payload ''critical_info'')"
    "\<not> truthy (dict_get payload ''withheld_information'')"
    "\<not> truthy (dict_get payload ''response_behavior'')"
    "\<not> truthy (dict_get payload ''do_not_say'')"
    and v: "\<not> truthy (voice_description_of payload)"
    and pv: "profile_values payload = []"
    by (simp_all add: all_data_empty_def text_keys_def list_keys_def)
  have details: "caller_details_part fmt payload = Inr []"
    by (simp add: caller_details_part_eq [OF s c] profile_lines_nothing [OF pv])
  have voice: "voice_part fmt payload = Inr []"
    using p v by (rule voice_no_description)
  show ?thesis
  proof (cases t)
    case CallerDetails
    with details show ?thesis by simp
  next
    case Voice
    with voice show ?thesis by simp
  qed (use f in \<open>simp_all add: role_part_eq summary_part_eq critical_part_eq withheld_part_eq
        dialogue_part_eq response_part_eq opening_part_eq do_not_part_eq behavior_part_eq\<close>)
qed

subsection \<open>Everything to write\<close>

lemma collect_returned: "is_ok (collect rs) \<Longrightarrow> returned (collect rs) = concat (map returned rs)"
  by (simp add: collect_ok collect_Inr)

lemma profile_bullets_nonempty:
  assumes ok: "is_ok (collect (map (profile_line fmt (caller_profile_of payload)) profile_keys))"
    and pv: "profile_values payload \<noteq> []"
  shows "profile_bullets fmt payload \<noteq> []"
proof -
  from pv have \<open>\<not> (\<forall>val \<in> set (map (dict_get (caller_profile_of payload)) profile_keys).
                     \<not> (val \<noteq> JNull \<and> val \<noteq> JStr ''''))\<close>
    unfolding profile_values_def filter_empty_conv .
  then obtain val where "val \<in> set (map (dict_get (caller_profile_of payload)) profile_keys)"
    and \<open>val \<noteq> JNull \<and> val \<noteq> JStr ''''\<close>
    by blast
  then obtain k where k: "k \<in> set profile_keys"
    and present: \<open>dict_get (caller_profile_of payload) k \<noteq> JNull
                  \<and> dict_get (caller_profile_of payload) k \<noteq> JStr ''''\<close>
    by auto
  from ok k have "is_ok (profile_line fmt (caller_profile_of payload) k)"
    by (simp add: collect_ok list_all_iff)
  with present have "is_ok (py_str fmt (dict_get (caller_profile_of payload) k))"
    by (simp add: profile_line_ok)
  with present have "returned (profile_line fmt (caller_profile_of payload) k) \<noteq> []"
    by (simp add: profile_line_def Let_def and_then_returned)
  with k have "concat (map returned (map (profile_line fmt (caller_profile_of payload)) profile_keys)) \<noteq> []"
    by auto
  with ok show ?thesis
    unfolding profile_bullets_def by (simp add: collect_returned)
qed

lemma profile_values_records:
  assumes "profile_values payload \<noteq> []"
  shows "is_dict (dict_get payload ''scenario'')"
    and "is_dict (dict_get (record_at payload ''scenario'') ''caller_profile'')"
proof -
  have "filter (\<lambda>val. val \<noteq> JNull \<and> val \<noteq> JStr []) (map (dict_get []) profile_keys) = []"
    by (simp add: dict_get_Nil filter_empty_conv)
  with assms have p: "caller_profile_of payload \<noteq> []"
    unfolding profile_values_def by auto
  then show "is_dict (dict_get (record_at payload ''scenario'') ''caller_profile'')"
    unfolding caller_profile_of_def by (rule record_at_nonempty)
  have "record_at [] ''caller_profile'' = []"
    by (simp add: record_at_def dict_get_Nil)
  with p have "record_at payload ''scenario'' \<noteq> []"
    unfolding caller_profile_of_def by auto
  then show "is_dict (dict_get payload ''scenario'')"
    by (rule record_at_nonempty)
qed

lemma voice_description_record:
  assumes "truthy (voice_description_of payload)"
  shows "is_dict (dict_get payload ''persona'')"
proof -
  from assms have "record_at payload ''persona'' \<noteq> []"
    unfolding voice_description_of_def by (auto simp: dict_get_Nil)
  then show ?thesis by (rule record_at_nonempty)
qed

lemma all_sections_present_records:
  assumes "all_sections_present payload"
  shows "records_ok payload"
  using assms profile_values_records [of payload] voice_description_record [of payload]
  by (simp add: all_sections_present_def records_ok_def record_or_empty_def)

section \<open>Properties of the generator\<close>

text \<open>
  Claim C3. Whenever the content parses as an object and normalization returns a payload,
  the payload holds a scenario record whose \<open>language\<close> is exactly \<open>en\<close>, whatever the
  input held there (another value, \<^verbatim>\<open>None\<close>, or nothing). A payload is returned
  whenever the \<open>scenario\<close> of the parsed object is absent or a record; for any other
  value line 222 raises \<^verbatim>\<open>AttributeError\<close> and nothing is returned.
\<close>

theorem normalize_language_en:
  assumes "decoded = Inr (JObj payload)"
  shows "(\<forall>result. normalize_content u (Some text) decoded = Inr result \<longrightarrow>
            (\<exists>sc. map_of result ''scenario'' = Some (JObj sc)
                 \<and> map_of sc ''language'' = Some (JStr ''en'')))
       \<and> (scenario_is_record payload \<longrightarrow>
            (\<exists>result. normalize_content u (Some text) decoded = Inr result))"
  using assms by (simp add: normalize_object_Inr map_of_dict_set repair_language)

theorem normalize_language_en_witness:
  \<open>normalize_content ''1f0e9a7c55d04e3b8a6f2c4d9b7e1a30'' (Some ''{"scenario": {"language": "fr"}}'')
       (Inr (JObj [(''scenario'', JObj [(''language'', JStr ''fr'')])]))
     = Inr [(''scenario'', JObj [(''language'', JStr ''en''), (''id'', JStr ''scenario-1f0e9a7c'')])]\<close>
  using normalize_language_en [of "Inr (JObj [(''scenario'', JObj [(''language'', JStr ''fr'')])])"
      "[(''scenario'', JObj [(''language'', JStr ''fr'')])]" "''1f0e9a7c55d04e3b8a6f2c4d9b7e1a30''"
      \<open>''{"scenario": {"language": "fr"}}''\<close>]
  by (simp add: normalize_content_def repair_scenario_def dict_get_def dict_get_default_def
      dict_set_def scenario_is_record_def)

text \<open>
  Claim C4. Whenever the content parses as an object and normalization returns a payload,
  its scenario record has an \<open>id\<close> that is present and not empty: an input \<open>id\<close> that was
  missing or empty (falsy) is replaced by \<open>scenario-\<close> followed by the first eight
  characters of the fresh UUID, and any other input \<open>id\<close>, a non-empty string in
  particular, is kept as it was.
\<close>

theorem normalize_id_nonempty:
  assumes "decoded = Inr (JObj payload)"
  shows "(\<forall>result. normalize_content u (Some text) decoded = Inr result \<longrightarrow>
            (\<exists>sc v. map_of result ''scenario'' = Some (JObj sc)
                 \<and> map_of sc ''id'' = Some v \<and> truthy v
                 \<and> (\<not> truthy (dict_get (record_at payload ''scenario'') ''id'') \<longrightarrow>
                        v = JStr (''scenario-'' @ take 8 u))
                 \<and> (truthy (dict_get (record_at payload ''scenario'') ''id'') \<longrightarrow>
                        v = dict_get (record_at payload ''scenario'') ''id'')))
       \<and> (scenario_is_record payload \<longrightarrow>
            (\<exists>result. normalize_content u (Some text) decoded = Inr result))"
proof (cases "truthy (dict_get (record_at payload ''scenario'') ''id'')")
  case True
  then show ?thesis
    using assms by (simp add: normalize_object_Inr map_of_dict_set repair_id_kept truthy_dict_get)
next
  case False
  then show ?thesis
    using assms by (simp add: normalize_object_Inr map_of_dict_set repair_id_fresh)
qed

theorem normalize_id_nonempty_witness:
  \<open>normalize_content ''1f0e9a7c55d04e3b8a6f2c4d9b7e1a30'' (Some ''{"scenario": {"id": ""}}'')
       (Inr (JObj [(''scenario'', JObj [(''id'', JStr '''')])]))
     = Inr [(''scenario'', JObj [(''id'', JStr ''scenario-1f0e9a7c''), (''language'', JStr ''en'')])]
   \<and> normalize_content ''1f0e9a7c55d04e3b8a6f2c4d9b7e1a30'' (Some ''{"scenario": {"id": "fire-7"}}'')
       (Inr (JObj [(''scenario'', JObj [(''id'', JStr ''fire-7'')])]))
     = Inr [(''scenario'', JObj [(''id'', JStr ''fire-7''), (''language'', JStr ''en'')])]\<close>
  using normalize_id_nonempty [of "Inr (JObj [(''scenario'', JObj [(''id'', JStr '''')])])"
      "[(''scenario'', JObj [(''id'', JStr '''')])]" "''1f0e9a7c55d04e3b8a6f2c4d9b7e1a30''"
      \<open>''{"scenario": {"id": ""}}''\<close>]
    normalize_id_nonempty [of "Inr (JObj [(''scenario'', JObj [(''id'', JStr ''fire-7'')])])"
      "[(''scenario'', JObj [(''id'', JStr ''fire-7'')])]" "''1f0e9a7c55d04e3b8a6f2c4d9b7e1a30''"
      \<open>''{"scenario": {"id": "fire-7"}}''\<close>]
  by (simp add: normalize_content_def repair_scenario_def dict_get_def dict_get_default_def
      dict_set_def scenario_is_record_def record_at_def)

text \<open>
  Claim C5. Normalization changes only the scenario record, and there only \<open>id\<close> and
  \<open>language\<close>: the entries of the payload other than \<open>scenario\<close> come back as they were
  parsed (same keys, same values, same order), and so do the entries of the scenario
  record other than \<open>id\<close> and \<open>language\<close>.
\<close>

theorem normalize_frame:
  assumes "decoded = Inr (JObj payload)"
    and "normalize_content u (Some text) decoded = Inr result"
  shows "filter (\<lambda>e. fst e \<noteq> ''scenario'') result = filter (\<lambda>e. fst e \<noteq> ''scenario'') payload
       \<and> (\<forall>k. k \<noteq> ''scenario'' \<longrightarrow> map_of result k = map_of payload k)
       \<and> (\<exists>sc. map_of result ''scenario'' = Some (JObj sc)
             \<and> filter (\<lambda>e. fst e \<noteq> ''id'' \<and> fst e \<noteq> ''language'') sc
                 = filter (\<lambda>e. fst e \<noteq> ''id'' \<and> fst e \<noteq> ''language'') (record_at payload ''scenario'')
             \<and> (\<forall>k. k \<noteq> ''id'' \<and> k \<noteq> ''language'' \<longrightarrow> map_of sc k = map_of (record_at payload ''scenario'') k))"
proof -
  let ?sc = "repair_scenario u (record_at payload ''scenario'')"
  from assms have res: "result = dict_set payload ''scenario'' (JObj ?sc)"
    by (simp add: normalize_object_Inr)
  have top: "filter (\<lambda>e. fst e \<noteq> ''scenario'') result = filter (\<lambda>e. fst e \<noteq> ''scenario'') payload"
    unfolding res by (rule filter_dict_set [where P = "\<lambda>k. k \<noteq> ''scenario''"]) simp
  have top_map: "\<forall>k. k \<noteq> ''scenario'' \<longrightarrow> map_of result k = map_of payload k"
    unfolding res by (simp add: map_of_dict_set)
  have inner: "filter (\<lambda>e. fst e \<noteq> ''id'' \<and> fst e \<noteq> ''language'') ?sc
                 = filter (\<lambda>e. fst e \<noteq> ''id'' \<and> fst e \<noteq> ''language'') (record_at payload ''scenario'')"
    by (rule repair_frame)
  have inner_map: "map_of ?sc k = map_of (record_at payload ''scenario'') k"
    if "k \<noteq> ''id'' \<and> k \<noteq> ''language''" for k
  proof -
    have "map_of ?sc k = map_of (filter (\<lambda>e. fst e \<noteq> ''id'' \<and> fst e \<noteq> ''language'') ?sc) k"
      by (rule map_of_filter2 [OF that, symmetric])
    also have "\<dots> = map_of (filter (\<lambda>e. fst e \<noteq> ''id'' \<and> fst e \<noteq> ''language'') (record_at payload ''scenario'')) k"
      by (simp only: inner)
    also have "\<dots> = map_of (record_at payload ''scenario'') k"
      by (rule map_of_filter2 [OF that])
    finally show ?thesis .
  qed
  have "map_of result ''scenario'' = Some (JObj ?sc)"
    unfolding res by (simp add: map_of_dict_set)
  with top top_map inner inner_map show ?thesis by blast
qed

theorem normalize_frame_witness:
  \<open>normalize_content ''1f0e9a7c55d04e3b8a6f2c4d9b7e1a30''
       (Some ''{"persona": 7, "scenario": {"title": "Fire", "language": "fr"}, "behavior_notes": null}'')
       (Inr (JObj [(''persona'', JInt 7),
                   (''scenario'', JObj [(''title'', JStr ''Fire''), (''language'', JStr ''fr'')]),
                   (''behavior_notes'', JNull)]))
     = Inr [(''persona'', JInt 7),
            (''scenario'', JObj [(''title'', JStr ''Fire''), (''language'', JStr ''en''),
                                 (''id'', JStr ''scenario-1f0e9a7c'')]),
            (''behavior_notes'', JNull)]
   \<and> filter (\<lambda>e. fst e \<noteq> ''scenario'')
        [(''persona'', JInt 7),
         (''scenario'', JObj [(''title'', JStr ''Fire''), (''language'', JStr ''en''),
                              (''id'', JStr ''scenario-1f0e9a7c'')]),
         (''behavior_notes'', JNull)]
      = filter (\<lambda>e. fst e \<noteq> ''scenario'')
        [(''persona'', JInt 7),
         (''scenario'', JObj [(''title'', JStr ''Fire''), (''language'', JStr ''fr'')]),
         (''behavior_notes'', JNull)]\<close>
proof -
  have run: \<open>normalize_content ''1f0e9a7c55d04e3b8a6f2c4d9b7e1a30''
       (Some ''{"persona": 7, "scenario": {"title": "Fire", "language": "fr"}, "behavior_notes": null}'')
       (Inr (JObj [(''persona'', JInt 7),
                   (''scenario'', JObj [(''title'', JStr ''Fire''), (''language'', JStr ''fr'')]),
                   (''behavior_notes'', JNull)]))
     = Inr [(''persona'', JInt 7),
            (''scenario'', JObj [(''title'', JStr ''Fire''), (''language'', JStr ''en''),
                                 (''id'', JStr ''scenario-1f0e9a7c'')]),
            (''behavior_notes'', JNull)]\<close>
    by (simp add: normalize_content_def repair_scenario_def dict_get_def dict_get_default_def
        dict_set_def)
  from normalize_frame [OF refl run] run show ?thesis by blast
qed




text \<open>
  Claim C6. \<^verbatim>\<open>generate_scenario\<close> fails with the invalid-difficulty error exactly when
  the difficulty is not one of \<open>easy\<close>, \<open>medium\<close>, \<open>hard\<close>, whatever the environment, the
  collaborator and the parser do.
\<close>

theorem invalid_difficulty_iff:
  "(generate_scenario api_key response decoded u difficulty = Inl invalid_difficulty)
     = (difficulty \<notin> set [''easy'', ''medium'', ''hard''])"
proof (cases "difficulty \<in> set [''easy'', ''medium'', ''hard'']")
  case False
  then show ?thesis by (simp add: generate_scenario_def)
next
  case True
  have "normalize_content u content decoded \<noteq> Inl invalid_difficulty" for content
    using normalize_content_Inl [of u content decoded invalid_difficulty]
    by (auto simp: invalid_difficulty_def)
  with True show ?thesis
    by (auto simp: generate_scenario_def invalid_difficulty_def missing_credentials_def
        split: sum.splits)
qed

theorem invalid_difficulty_iff_witness:
  "generate_scenario None (Inl ''unused'') (Inl (Malformed ''unused'')) ''1f0e9a7c55d04e3b8a6f2c4d9b7e1a30'' ''extreme''
     = Inl invalid_difficulty
   \<and> generate_scenario None (Inl ''unused'') (Inl (Malformed ''unused'')) ''1f0e9a7c55d04e3b8a6f2c4d9b7e1a30'' ''Easy''
     = Inl invalid_difficulty
   \<and> generate_scenario None (Inl ''unused'') (Inl (Malformed ''unused'')) ''1f0e9a7c55d04e3b8a6f2c4d9b7e1a30'' ''easy''
     \<noteq> Inl invalid_difficulty
   \<and> generate_scenario None (Inl ''unused'') (Inl (Malformed ''unused'')) ''1f0e9a7c55d04e3b8a6f2c4d9b7e1a30'' ''medium''
     \<noteq> Inl invalid_difficulty
   \<and> generate_scenario None (Inl ''unused'') (Inl (Malformed ''unused'')) ''1f0e9a7c55d04e3b8a6f2c4d9b7e1a30'' ''hard''
     \<noteq> Inl invalid_difficulty"
  using invalid_difficulty_iff [of None "Inl ''unused''" "Inl (Malformed ''unused'')" "''1f0e9a7c55d04e3b8a6f2c4d9b7e1a30''" "''extreme''"]
    invalid_difficulty_iff [of None "Inl ''unused''" "Inl (Malformed ''unused'')" "''1f0e9a7c55d04e3b8a6f2c4d9b7e1a30''" "''Easy''"]
    invalid_difficulty_iff [of None "Inl ''unused''" "Inl (Malformed ''unused'')" "''1f0e9a7c55d04e3b8a6f2c4d9b7e1a30''" "''easy''"]
    invalid_difficulty_iff [of None "Inl ''unused''" "Inl (Malformed ''unused'')" "''1f0e9a7c55d04e3b8a6f2c4d9b7e1a30''" "''medium''"]
    invalid_difficulty_iff [of None "Inl ''unused''" "Inl (Malformed ''unused'')" "''1f0e9a7c55d04e3b8a6f2c4d9b7e1a30''" "''hard''"]
  by simp

text \<open>
  Claim C9. With a valid difficulty and the API key unset or empty, \<^verbatim>\<open>generate_scenario\<close>
  fails with the missing-credentials error, and with no other input does it fail so: the
  error differs from the invalid-difficulty error (both are \<^verbatim>\<open>ValueError\<close>, told apart by
  their message) and from every failure of the collaborator or of the parser.
\<close>

theorem missing_credentials_distinct:
  "(generate_scenario api_key response decoded u difficulty = Inl missing_credentials)
     = (difficulty \<in> set [''easy'', ''medium'', ''hard''] \<and> (api_key = None \<or> api_key = Some ''''))
   \<and> missing_credentials \<noteq> invalid_difficulty
   \<and> missing_credentials \<noteq> CollaboratorError cause
   \<and> missing_credentials \<noteq> JSONDecodeError msg doc"
proof -
  have "normalize_content u content decoded \<noteq> Inl missing_credentials" for content
    using normalize_content_Inl [of u content decoded missing_credentials]
    by (auto simp: missing_credentials_def)
  then show ?thesis
    by (auto simp: generate_scenario_def invalid_difficulty_def missing_credentials_def
        split: sum.splits)
qed

theorem missing_credentials_distinct_witness:
  "generate_scenario None (Inl ''unused'') (Inl (Malformed ''unused'')) ''1f0e9a7c55d04e3b8a6f2c4d9b7e1a30'' ''hard''
     = Inl missing_credentials
   \<and> generate_scenario (Some '''') (Inl ''unused'') (Inl (Malformed ''unused'')) ''1f0e9a7c55d04e3b8a6f2c4d9b7e1a30'' ''hard''
     = Inl missing_credentials
   \<and> generate_scenario (Some ''sk-test'') (Inl ''timeout'') (Inl (Malformed ''unused'')) ''1f0e9a7c55d04e3b8a6f2c4d9b7e1a30'' ''hard''
     \<noteq> Inl missing_credentials
   \<and> missing_credentials \<noteq> invalid_difficulty"
  using missing_credentials_distinct [of None "Inl ''unused''" "Inl (Malformed ''unused'')" "''1f0e9a7c55d04e3b8a6f2c4d9b7e1a30''" "''hard''"]
    missing_credentials_distinct [of "Some ''''" "Inl ''unused''" "Inl (Malformed ''unused'')" "''1f0e9a7c55d04e3b8a6f2c4d9b7e1a30''" "''hard''"]
    missing_credentials_distinct [of "Some ''sk-test''" "Inl ''timeout''" "Inl (Malformed ''unused'')" "''1f0e9a7c55d04e3b8a6f2c4d9b7e1a30''" "''hard''"]
  by simp

section \<open>Properties of the composer\<close>

text \<open>
  Claim C10. For each of the four list sections, when the field holds a value that is
  not a list (a string, a number, \<^verbatim>\<open>None\<close>, a dictionary), the block of the section writes
  nothing and does not raise, and the composer does with the payload exactly what it does
  with the payload from which the field has been deleted; in particular it returns a
  prompt whenever the nested records are records and the values of the other fields can
  be formatted.
\<close>

theorem non_list_field_omitted:
  assumes "\<not> is_list v"
  shows "critical_part fmt (dict_set payload ''critical_info'' v) = Inr []
       \<and> withheld_part fmt (dict_set payload ''withheld_information'' v) = Inr []
       \<and> response_part fmt (dict_set payload ''response_behavior'' v) = Inr []
       \<and> do_not_part fmt (dict_set payload ''do_not_say'' v) = Inr []
       \<and> (\<forall>k \<in> set list_keys.
             build_voice_agent_system_prompt fmt (dict_set payload k v)
               = build_voice_agent_system_prompt fmt (dict_del payload k)
             \<and> (records_ok payload \<and> formats_ok fmt (dict_del payload k) \<longrightarrow>
                  (\<exists>prompt. build_voice_agent_system_prompt fmt (dict_set payload k v) = Inr prompt)))"
proof -
  have c: "critical_part fmt (dict_set payload ''critical_info'' v) = Inr []"
    using assms by (simp add: critical_part_eq dict_get_dict_set)
  have w: "withheld_part fmt (dict_set payload ''withheld_information'' v) = Inr []"
    using assms by (simp add: withheld_part_eq dict_get_dict_set)
  have r: "response_part fmt (dict_set payload ''response_behavior'' v) = Inr []"
    using assms by (simp add: response_part_eq dict_get_dict_set)
  have d: "do_not_part fmt (dict_set payload ''do_not_say'' v) = Inr []"
    using assms by (simp add: do_not_part_eq dict_get_dict_set)
  have same: "build_voice_agent_system_prompt fmt (dict_set payload k v)
                = build_voice_agent_system_prompt fmt (dict_del payload k)"
    if "k \<in> set list_keys" for k
    using assms that by (rule list_field_same)
  have ok: "\<exists>prompt. build_voice_agent_system_prompt fmt (dict_set payload k v) = Inr prompt"
    if k: "k \<in> set list_keys" and p: "records_ok payload" and f: "formats_ok fmt (dict_del payload k)"
    for k
  proof -
    from k have "k \<noteq> ''scenario''" "k \<noteq> ''persona''"
      by (auto simp: list_keys_def)
    then have "records_ok (dict_del payload k) = records_ok payload"
      by (intro records_ok_cong) (simp_all add: dict_get_dict_del)
    with p f have "is_ok (build_voice_agent_system_prompt fmt (dict_del payload k))"
      by (simp add: build_ok)
    then show ?thesis
      by (simp add: same [OF k] is_ok_iff)
  qed
  from c w r d same ok show ?thesis by blast
qed

theorem non_list_field_omitted_witness:
  "build_voice_agent_system_prompt maria_fmt
       [(''role_instruction'', JStr ''You are Maria.''), (''critical_info'', JStr ''Address is 12 Oak St'')]
     = Inr ''## Role\<newline>You are Maria.''
   \<and> build_voice_agent_system_prompt maria_fmt
       [(''role_instruction'', JStr ''You are Maria.''), (''do_not_say'', JInt 7)]
     = Inr ''## Role\<newline>You are Maria.''"
proof -
  have a: "build_voice_agent_system_prompt maria_fmt
             (dict_del [(''role_instruction'', JStr ''You are Maria.'')] k)
             = Inr ''## Role\<newline>You are Maria.''"
    if "k = ''critical_info'' \<or> k = ''do_not_say''" for k
    using that
    by (auto simp: build_voice_agent_system_prompt_def build_parts_def caller_details_part_def
        voice_part_def role_part_def summary_part_def critical_part_def withheld_part_def
        dialogue_part_def response_part_def opening_part_def do_not_part_def behavior_part_def
        profile_keys_def profile_line_def join_parts_def dict_del_def
        dict_get_def dict_get_default_def py_or_def)
  have a1: "build_voice_agent_system_prompt maria_fmt
              (dict_del [(''role_instruction'', JStr ''You are Maria.'')] ''critical_info'')
              = Inr ''## Role\<newline>You are Maria.''"
    by (rule a) simp
  have a2: "build_voice_agent_system_prompt maria_fmt
              (dict_del [(''role_instruction'', JStr ''You are Maria.'')] ''do_not_say'')
              = Inr ''## Role\<newline>You are Maria.''"
    by (rule a) simp
  have s1: "dict_set [(''role_instruction'', JStr ''You are Maria.'')] ''critical_info''
              (JStr ''Address is 12 Oak St'')
            = [(''role_instruction'', JStr ''You are Maria.''), (''critical_info'', JStr ''Address is 12 Oak St'')]"
    by (simp add: dict_set_def)
  have s2: "dict_set [(''role_instruction'', JStr ''You are Maria.'')] ''do_not_say'' (JInt 7)
            = [(''role_instruction'', JStr ''You are Maria.''), (''do_not_say'', JInt 7)]"
    by (simp add: dict_set_def)
  have n1: "\<not> is_list (JStr ''Address is 12 Oak St'')" and n2: "\<not> is_list (JInt 7)"
    by simp_all
  have k1: "''critical_info'' \<in> set list_keys" and k2: "''do_not_say'' \<in> set list_keys"
    by (simp_all add: list_keys_def)
  from non_list_field_omitted [OF n1, of maria_fmt "[(''role_instruction'', JStr ''You are Maria.'')]"] k1
  have "build_voice_agent_system_prompt maria_fmt
          (dict_set [(''role_instruction'', JStr ''You are Maria.'')] ''critical_info''
             (JStr ''Address is 12 Oak St''))
        = build_voice_agent_system_prompt maria_fmt
            (dict_del [(''role_instruction'', JStr ''You are Maria.'')] ''critical_info'')"
    by blast
  moreover
  from non_list_field_omitted [OF n2, of maria_fmt "[(''role_instruction'', JStr ''You are Maria.'')]"] k2
  have "build_voice_agent_system_prompt maria_fmt
          (dict_set [(''role_instruction'', JStr ''You are Maria.'')] ''do_not_say'' (JInt 7))
        = build_voice_agent_system_prompt maria_fmt
            (dict_del [(''role_instruction'', JStr ''You are Maria.'')] ''do_not_say'')"
    by blast
  ultimately show ?thesis
    by (simp only: s1 s2 a1 a2 simp_thms)
qed

text \<open>
  Claim C8, as amended. The composer returns a prompt exactly for the payloads in which
  \<open>scenario\<close>, \<open>caller_profile\<close> inside it, and \<open>persona\<close> are each a record or absent or
  falsy, and in which every value that a section writes can be formatted. For such a
  payload in which no section has anything to write, the prompt is the empty string.
\<close>

theorem compose_total_on_records:
  "(\<exists>prompt. build_voice_agent_system_prompt fmt payload = Inr prompt)
     = (records_ok payload \<and> formats_ok fmt payload)
   \<and> (records_ok payload \<and> all_data_empty payload \<longrightarrow>
        build_voice_agent_system_prompt fmt payload = Inr [])"
proof -
  have "build_voice_agent_system_prompt fmt payload = Inr []"
    if ok: "records_ok payload" and e: "all_data_empty payload"
  proof -
    have "build_voice_agent_system_prompt fmt payload
            = Inr (join_parts (concat (map (\<lambda>t. []) section_order)))"
      by (rule build_sections) (rule empty_sections [OF ok e])
    then show ?thesis
      by (simp add: join_parts_def)
  qed
  then show ?thesis
    by (simp add: build_ok [symmetric] is_ok_iff)
qed

text \<open>
  The claim as it is written fails on a payload whose \<open>persona\<close> is a string: line 270
  calls \<^verbatim>\<open>.get\<close> on it.
\<close>

theorem compose_total_counterexample:
  "build_voice_agent_system_prompt maria_fmt [(''persona'', JStr ''calm'')]
     = Inl (AttributeError ''str'')"
  by (simp add: build_voice_agent_system_prompt_def build_parts_def caller_details_part_def
      voice_part_def role_part_def summary_part_def critical_part_def withheld_part_def
      profile_keys_def profile_line_def dict_get_def dict_get_default_def py_or_def)

theorem compose_total_on_records_witness:
  "records_ok [(''opening_line'', JStr []), (''persona'', JNull), (''scenario'', JObj [(''title'', JStr ''Fire'')])]
   \<and> all_data_empty [(''opening_line'', JStr []), (''persona'', JNull), (''scenario'', JObj [(''title'', JStr ''Fire'')])]
   \<and> build_voice_agent_system_prompt maria_fmt
        [(''opening_line'', JStr []), (''persona'', JNull), (''scenario'', JObj [(''title'', JStr ''Fire'')])]
      = Inr []"
proof -
  have ok: "records_ok [(''opening_line'', JStr []), (''persona'', JNull), (''scenario'', JObj [(''title'', JStr ''Fire'')])]"
    by (simp add: records_ok_def record_or_empty_def record_at_def dict_get_def dict_get_default_def)
  have e: "all_data_empty [(''opening_line'', JStr []), (''persona'', JNull), (''scenario'', JObj [(''title'', JStr ''Fire'')])]"
    by (simp add: all_data_empty_def text_keys_def list_keys_def profile_keys_def profile_values_def
        caller_profile_of_def voice_description_of_def record_at_def dict_get_def dict_get_default_def)
  from compose_total_on_records
    [of maria_fmt "[(''opening_line'', JStr []), (''persona'', JNull), (''scenario'', JObj [(''title'', JStr ''Fire'')])]"]
    ok e show ?thesis by blast
qed

text \<open>
  Claim C2. When every section has something to write and the values can be formatted,
  the prompt is the eleven sections joined by a blank line, each made of its heading and
  its body, in the order Role, Caller personal details, Scenario summary, Critical
  information to convey, Details that emerge with operator probing, Voice, Dialogue
  directions, How to react to the operator, Opening line, Do NOT say, Behavioral notes.
\<close>

theorem sections_in_fixed_order:
  assumes "all_sections_present payload" and "formats_ok fmt payload"
  shows \<open>build_voice_agent_system_prompt fmt payload =
     Inr (py_join ''\<newline>\<newline>''
       [''## Role\<newline>'' @ text_of fmt (dict_get payload ''role_instruction''),
        ''## Caller personal details\<newline>'' @ py_join ''\<newline>'' (profile_bullets fmt payload),
        ''## Scenario summary (ground truth)\<newline>''
          @ text_of fmt (dict_get payload ''scenario_summary_for_agent''),
        ''## Critical information to convey (reveal when the operator asks; do not dump all at once)\<newline>''
          @ bullets_of fmt (dict_get payload ''critical_info''),
        ''## Details that emerge with operator probing\<newline>''
          @ bullets_of fmt (dict_get payload ''withheld_information'')
          @ ''\<newline>These are NOT things you are purposely hiding. They are contextual details that help the operator understand the situation better; they simply don't come up until the operator asks the right questions (e.g. suspect description, layout, who else is present). When the operator probes or asks relevant questions, provide these details naturally.'',
        ''## Voice / how to speak\<newline>You sound like: '' @ text_of fmt (voice_description_of payload),
        ''## Dialogue / acting directions\<newline>'' @ text_of fmt (dict_get payload ''dialogue_directions''),
        ''## How to react to the operator\<newline>''
          @ bullets_of fmt (dict_get payload ''response_behavior''),
        ''## Opening line\<newline>When the call connects, start with something like: "''
          @ text_of fmt (dict_get payload ''opening_line'') @ ''"'',
        ''## Do NOT say (stay in character)\<newline>''
          @ bullets_of fmt (dict_get payload ''do_not_say''),
        ''## Behavioral notes\<newline>'' @ text_of fmt (dict_get payload ''behavior_notes'')])\<close>
proof -
  have ok: "records_ok payload"
    using assms(1) by (rule all_sections_present_records)
  then have s: "record_or_empty (dict_get payload ''scenario'')"
    and c: "record_or_empty (dict_get (record_at payload ''scenario'') ''caller_profile'')"
    and p: "record_or_empty (dict_get payload ''persona'')"
    by (simp_all add: records_ok_def)
  from assms(1) have t: "truthy (dict_get payload ''role_instruction'')"
    "truthy (dict_get payload ''scenario_summary_for_agent'')"
    "truthy (dict_get payload ''dialogue_directions'')"
    "truthy (dict_get payload ''opening_line'')"
    "truthy (dict_get payload ''behavior_notes'')"
    by (simp_all add: all_sections_present_def text_keys_def)
  from assms(1) have l: "is_list (dict_get payload ''critical_info'') \<and> truthy (dict_get payload ''critical_info'')"
    "is_list (dict_get payload ''withheld_information'') \<and> truthy (dict_get payload ''withheld_information'')"
    "is_list (dict_get payload ''response_behavior'') \<and> truthy (dict_get payload ''response_behavior'')"
    "is_list (dict_get payload ''do_not_say'') \<and> truthy (dict_get payload ''do_not_say'')"
    by (simp_all add: all_sections_present_def list_keys_def)
  from assms(1) have pv: "profile_values payload \<noteq> []"
    and v: "truthy (voice_description_of payload)"
    by (simp_all add: all_sections_present_def)
  from assms(2) t v have f: "is_ok (py_str fmt (dict_get payload ''role_instruction''))"
    "is_ok (py_str fmt (dict_get payload ''scenario_summary_for_agent''))"
    "is_ok (py_str fmt (dict_get payload ''dialogue_directions''))"
    "is_ok (py_str fmt (dict_get payload ''opening_line''))"
    "is_ok (py_str fmt (dict_get payload ''behavior_notes''))"
    "is_ok (py_str fmt (voice_description_of payload))"
    by (simp_all add: formats_ok_iff)
  from assms(2) have b: "is_ok (bullet_lines fmt (list_items (dict_get payload ''critical_info'')))"
    "is_ok (bullet_lines fmt (list_items (dict_get payload ''withheld_information'')))"
    "is_ok (bullet_lines fmt (list_items (dict_get payload ''response_behavior'')))"
    "is_ok (bullet_lines fmt (list_items (dict_get payload ''do_not_say'')))"
    by (simp_all add: formats_ok_iff bullet_lines_ok)
  from assms(2) have pl: "is_ok (collect (map (profile_line fmt (caller_profile_of payload)) profile_keys))"
    by (simp add: formats_ok_iff profile_lines_ok)
  have role_eq: \<open>role_part fmt payload
                = Inr [''## Role\<newline>'' @ text_of fmt (dict_get payload ''role_instruction'')]\<close>
    by (simp add: role_part_eq t and_then_returned [OF f(1)] text_of_def)
  have details_eq: \<open>caller_details_part fmt payload
                   = Inr [''## Caller personal details\<newline>'' @ py_join ''\<newline>'' (profile_bullets fmt payload)]\<close>
    using profile_bullets_nonempty [OF pl pv]
    by (simp add: caller_details_part_eq [OF s c] and_then_returned [OF pl] profile_bullets_def)
  have summary_eq: \<open>summary_part fmt payload
                   = Inr [''## Scenario summary (ground truth)\<newline>''
                          @ text_of fmt (dict_get payload ''scenario_summary_for_agent'')]\<close>
    by (simp add: summary_part_eq t and_then_returned [OF f(2)] text_of_def)
  have critical_eq: \<open>critical_part fmt payload
                    = Inr [''## Critical information to convey (reveal when the operator asks; do not dump all at once)\<newline>''
                           @ bullets_of fmt (dict_get payload ''critical_info'')]\<close>
    by (simp add: critical_part_eq l and_then_returned [OF b(1)] bullets_of_def)
  have withheld_eq: \<open>withheld_part fmt payload
                    = Inr [''## Details that emerge with operator probing\<newline>''
                           @ bullets_of fmt (dict_get payload ''withheld_information'')
                           @ ''\<newline>These are NOT things you are purposely hiding. They are contextual details that help the operator understand the situation better; they simply don't come up until the operator asks the right questions (e.g. suspect description, layout, who else is present). When the operator probes or asks relevant questions, provide these details naturally.'']\<close>
    by (simp add: withheld_part_eq l and_then_returned [OF b(2)] bullets_of_def)
  have voice_eq: \<open>voice_part fmt payload
                 = Inr [''## Voice / how to speak\<newline>You sound like: ''
                        @ text_of fmt (voice_description_of payload)]\<close>
    by (simp add: voice_part_eq [OF p] v and_then_returned [OF f(6)] text_of_def)
  have dialogue_eq: \<open>dialogue_part fmt payload
                    = Inr [''## Dialogue / acting directions\<newline>''
                           @ text_of fmt (dict_get payload ''dialogue_directions'')]\<close>
    by (simp add: dialogue_part_eq t and_then_returned [OF f(3)] text_of_def)
  have response_eq: \<open>response_part fmt payload
                    = Inr [''## How to react to the operator\<newline>''
                           @ bullets_of fmt (dict_get payload ''response_behavior'')]\<close>
    by (simp add: response_part_eq l and_then_returned [OF b(3)] bullets_of_def)
  have opening_eq: \<open>opening_part fmt payload
                   = Inr [''## Opening line\<newline>When the call connects, start with something like: "''
                          @ text_of fmt (dict_get payload ''opening_line'') @ ''"'']\<close>
    by (simp add: opening_part_eq t and_then_returned [OF f(4)] text_of_def)
  have do_not_eq: \<open>do_not_part fmt payload
                  = Inr [''## Do NOT say (stay in character)\<newline>''
                         @ bullets_of fmt (dict_get payload ''do_not_say'')]\<close>
    by (simp add: do_not_part_eq l and_then_returned [OF b(4)] bullets_of_def)
  have behavior_eq: \<open>behavior_part fmt payload
                    = Inr [''## Behavioral notes\<newline>'' @ text_of fmt (dict_get payload ''behavior_notes'')]\<close>
    by (simp add: behavior_part_eq t and_then_returned [OF f(5)] text_of_def)
  show ?thesis
    unfolding build_voice_agent_system_prompt_def build_parts_def
      role_eq details_eq summary_eq critical_eq withheld_eq voice_eq dialogue_eq response_eq
      opening_eq do_not_eq behavior_eq
    by (simp only: collect.simps and_then.simps append_Cons append_Nil join_parts_def
        list.distinct simp_thms if_True)
qed

theorem sections_in_fixed_order_witness:
  \<open>all_sections_present maria_payload \<and> formats_ok maria_fmt maria_payload
   \<and> build_voice_agent_system_prompt maria_fmt maria_payload =
       Inr ''## Role\<newline>You are Maria, 34, calling about a kitchen fire.\<newline>\<newline>## Caller personal details\<newline>- name: Maria\<newline>- age: 34\<newline>\<newline>## Scenario summary (ground truth)\<newline>A pan caught fire.\<newline>\<newline>## Critical information to convey (reveal when the operator asks; do not dump all at once)\<newline>- Address is 12 Oak St\<newline>- Fire is in the kitchen\<newline>\<newline>## Details that emerge with operator probing\<newline>- A child is upstairs\<newline>These are NOT things you are purposely hiding. They are contextual details that help the operator understand the situation better; they simply don't come up until the operator asks the right questions (e.g. suspect description, layout, who else is present). When the operator probes or asks relevant questions, provide these details naturally.\<newline>\<newline>## Voice / how to speak\<newline>You sound like: anxious but coherent\<newline>\<newline>## Dialogue / acting directions\<newline>Some hesitation.\<newline>\<newline>## How to react to the operator\<newline>- Give address only after being asked\<newline>\<newline>## Opening line\<newline>When the call connects, start with something like: "Help, my kitchen is on fire!"\<newline>\<newline>## Do NOT say (stay in character)\<newline>- I am an AI\<newline>\<newline>## Behavioral notes\<newline>May repeat herself.''\<close>
proof -
  have h: "all_sections_present maria_payload"
    by (simp add: maria_payload_def all_sections_present_def text_keys_def list_keys_def
        profile_values_def profile_keys_def caller_profile_of_def voice_description_of_def
        record_at_def dict_get_def dict_get_default_def)
  have g: "formats_ok maria_fmt maria_payload"
    by (simp add: maria_payload_def maria_fmt_def formats_ok_def written_values_def text_keys_def
        list_keys_def profile_values_def profile_keys_def caller_profile_of_def
        voice_description_of_def record_at_def dict_get_def dict_get_default_def)
  show ?thesis
    using h g sections_in_fixed_order [OF h g]
    by (simp add: maria_payload_def maria_fmt_def text_of_def bullets_of_def bullet_lines_def
        profile_bullets_def profile_keys_def profile_line_def caller_profile_of_def
        voice_description_of_def record_at_def dict_get_def dict_get_default_def)
qed

text \<open>
  Claim C1. For a payload from which the composer makes a prompt, the prompt is the
  sections joined in order; after the field under one section is removed, or is given a
  falsy value (\<^verbatim>\<open>None\<close>, the empty string, the empty list, the empty record), the
  composer makes the prompt that joins the same sections without that one: its heading
  and body are gone and every other section is as before. The same holds when the
  top-level key that the section reads is removed or made falsy, which for the caller
  details and the voice is the whole \<open>scenario\<close> or \<open>persona\<close>.
\<close>

theorem omission_law:
  assumes "build_voice_agent_system_prompt fmt payload = Inr prompt"
  shows "prompt = join_parts (concat (map (\<lambda>t. section_part t fmt payload) section_order))
       \<and> build_voice_agent_system_prompt fmt (remove_field s payload)
           = Inr (join_parts (concat (map (\<lambda>t. if t = s then [] else section_part t fmt payload)
                                           section_order)))
       \<and> build_voice_agent_system_prompt fmt (dict_del payload (section_key s))
           = Inr (join_parts (concat (map (\<lambda>t. if t = s then [] else section_part t fmt payload)
                                           section_order)))
       \<and> (\<not> truthy v \<longrightarrow>
            build_voice_agent_system_prompt fmt (set_field s v payload)
              = Inr (join_parts (concat (map (\<lambda>t. if t = s then [] else section_part t fmt payload)
                                              section_order)))
            \<and> build_voice_agent_system_prompt fmt (dict_set payload (section_key s) v)
              = Inr (join_parts (concat (map (\<lambda>t. if t = s then [] else section_part t fmt payload)
                                              section_order))))"
proof -
  from assms have ok: "is_ok (build_voice_agent_system_prompt fmt payload)"
    by simp
  from assms have "prompt = join_parts (concat (map (\<lambda>t. section_part t fmt payload) section_order))"
    using build_Inr [OF ok] by simp
  moreover have "build_voice_agent_system_prompt fmt (dict_del payload (section_key s))
           = Inr (join_parts (concat (map (\<lambda>t. if t = s then [] else section_part t fmt payload)
                                           section_order)))"
    by (rule omit_top_level [OF ok]) (simp_all add: dict_get_dict_del)
  moreover have "build_voice_agent_system_prompt fmt (dict_set payload (section_key s) v)
           = Inr (join_parts (concat (map (\<lambda>t. if t = s then [] else section_part t fmt payload)
                                           section_order)))"
    if "\<not> truthy v"
    by (rule omit_top_level [OF ok]) (simp_all add: dict_get_dict_set that)
  moreover note remove_field_omits [OF ok, of s] set_field_omits [OF ok, of v s]
  ultimately show ?thesis by simp
qed

theorem omission_law_witness:
  "build_voice_agent_system_prompt maria_fmt
       [(''role_instruction'', JStr ''You are Maria.''),
        (''scenario'', JObj [(''caller_profile'', JObj [(''name'', JStr ''Maria'')])])]
     = Inr ''## Role\<newline>You are Maria.\<newline>\<newline>## Caller personal details\<newline>- name: Maria''
   \<and> build_voice_agent_system_prompt maria_fmt
       (remove_field CallerDetails
          [(''role_instruction'', JStr ''You are Maria.''),
           (''scenario'', JObj [(''caller_profile'', JObj [(''name'', JStr ''Maria'')])])])
     = Inr ''## Role\<newline>You are Maria.''
   \<and> build_voice_agent_system_prompt maria_fmt
       (set_field CallerDetails JNull
          [(''role_instruction'', JStr ''You are Maria.''),
           (''scenario'', JObj [(''caller_profile'', JObj [(''name'', JStr ''Maria'')])])])
     = Inr ''## Role\<newline>You are Maria.''
   \<and> build_voice_agent_system_prompt maria_fmt
       (dict_del
          [(''role_instruction'', JStr ''You are Maria.''),
           (''scenario'', JObj [(''caller_profile'', JObj [(''name'', JStr ''Maria'')])])]
          ''scenario'')
     = Inr ''## Role\<newline>You are Maria.''"
proof -
  let ?p = "[(''role_instruction'', JStr ''You are Maria.''),
             (''scenario'', JObj [(''caller_profile'', JObj [(''name'', JStr ''Maria'')])])]"
  have h: "build_voice_agent_system_prompt maria_fmt ?p
             = Inr ''## Role\<newline>You are Maria.\<newline>\<newline>## Caller personal details\<newline>- name: Maria''"
    by (simp add: build_voice_agent_system_prompt_def build_parts_def caller_details_part_def
        voice_part_def role_part_def summary_part_def critical_part_def withheld_part_def
        dialogue_part_def response_part_def opening_part_def do_not_part_def behavior_part_def
        profile_keys_def profile_line_def join_parts_def
        dict_get_def dict_get_default_def py_or_def)
  have r: "join_parts (concat (map (\<lambda>t. if t = CallerDetails then [] else section_part t maria_fmt ?p)
                                   section_order))
             = ''## Role\<newline>You are Maria.''"
    by (simp add: section_order_def section_part_def role_part_def summary_part_def
        critical_part_def withheld_part_def voice_part_def
        dialogue_part_def response_part_def opening_part_def do_not_part_def behavior_part_def
        join_parts_def dict_get_def dict_get_default_def py_or_def)
  from omission_law [OF h, of CallerDetails JNull] show ?thesis
    by (simp only: h r truthy.simps section_key.simps simp_thms)
qed

end
